theory Spec2Isabelle
  imports Main "HOL-Library.AList"
begin

section \<open>Python values and exceptions\<close>

text \<open>
  The client decodes every server answer with \<^verbatim>\<open>json.loads\<close>, so the values it handles
  are the Python images of JSON values. An object keeps its keys in document order (an
  association list; a decoded object has pairwise distinct keys). \<open>JFloat m e\<close> stands
  for a number written with a fraction or an exponent; no operation of the client looks
  inside a number.
\<close>

datatype json =
    JNull
  | JBool bool
  | JInt int
  | JFloat int int
  | JStr string
  | JArr "json list"
  | JObj "(string \<times> json) list"

datatype py_exception =
    KeyError
  | IndexError
  | TypeError
  | ValueError
  | AttributeError
  | OSError
  | RequestException
  | JSONDecodeError
  | IllegalCharacterError
  | FileNotFoundError
  | LibraryError

text \<open>
  How the process ends when it does not run to completion: \<^verbatim>\<open>sys.exit(n)\<close> with an exit
  code, \<^verbatim>\<open>sys.exit(msg)\<close> with a message, or an exception nobody catches.
\<close>

datatype failure =
    Exit nat
  | ExitMsg string
  | Unhandled py_exception

text \<open>\<^verbatim>\<open>s.startswith(p)\<close>\<close>

definition startswith :: "string \<Rightarrow> string \<Rightarrow> bool" where
  "startswith s p = (take (length p) s = p)"

text \<open>\<^verbatim>\<open>obj[key]\<close> with a string key: only a dict has string keys.\<close>

definition getitem_str :: "json \<Rightarrow> string \<Rightarrow> py_exception + json" where
  "getitem_str obj k =
     (case obj of
        JObj d \<Rightarrow> (case map_of d k of None \<Rightarrow> Inl KeyError | Some v \<Rightarrow> Inr v)
      | _ \<Rightarrow> Inl TypeError)"

text \<open>
  \<^verbatim>\<open>obj[i]\<close> with a non-negative integer index: a list or a string is indexed by
  position, a decoded JSON object has no integer key, anything else is not subscriptable.
\<close>

definition getitem_int :: "json \<Rightarrow> nat \<Rightarrow> py_exception + json" where
  "getitem_int obj i =
     (case obj of
        JArr xs \<Rightarrow> (if i < length xs then Inr (xs ! i) else Inl IndexError)
      | JStr s \<Rightarrow> (if i < length s then Inr (JStr [s ! i]) else Inl IndexError)
      | JObj d \<Rightarrow> Inl KeyError
      | _ \<Rightarrow> Inl TypeError)"

text \<open>
  What \<^verbatim>\<open>for x in obj\<close> iterates over: the elements of a list, the keys of a dict, the
  characters of a string; a number, a boolean and \<^verbatim>\<open>None\<close> are not iterable.
\<close>

definition py_iter :: "json \<Rightarrow> py_exception + json list" where
  "py_iter obj =
     (case obj of
        JArr xs \<Rightarrow> Inr xs
      | JObj d \<Rightarrow> Inr (map (\<lambda>kv. JStr (fst kv)) d)
      | JStr s \<Rightarrow> Inr (map (\<lambda>c. JStr [c]) s)
      | _ \<Rightarrow> Inl TypeError)"

text \<open>\<^verbatim>\<open>obj + "suffix"\<close> and \<^verbatim>\<open>"prefix" + obj\<close>: defined for a string operand only.\<close>

definition add_str :: "json \<Rightarrow> string \<Rightarrow> py_exception + string" where
  "add_str obj suffix = (case obj of JStr s \<Rightarrow> Inr (s @ suffix) | _ \<Rightarrow> Inl TypeError)"

definition str_add :: "string \<Rightarrow> json \<Rightarrow> py_exception + string" where
  "str_add pre obj = (case obj of JStr s \<Rightarrow> Inr (pre @ s) | _ \<Rightarrow> Inl TypeError)"

text \<open>
  \<^verbatim>\<open>int(s)\<close> on a string of decimal digits (the only form the client uses: the port is
  the constant \<^verbatim>\<open>"7443"\<close>).
\<close>

definition is_digit :: "char \<Rightarrow> bool" where
  "is_digit c = (48 \<le> (of_char c :: nat) \<and> (of_char c :: nat) \<le> 57)"

definition py_int :: "string \<Rightarrow> py_exception + nat" where
  "py_int s =
     (if s \<noteq> [] \<and> list_all is_digit s
      then Inr (foldl (\<lambda>n c. 10 * n + (of_char c - 48)) 0 s)
      else Inl ValueError)"

section \<open>The spreadsheet library's data\<close>

text \<open>
  A worksheet of the spreadsheet library: the dictionary of its cells, keyed by (row,
  column) and kept in creation order, the column dimensions and the row counter that
  \<^verbatim>\<open>append\<close> advances. Rows and columns are numbered from 1. The library keys the column
  dimensions by column letter; the letter of a column and its number determine each other,
  so the number stands for the letter here. A workbook is the list of its sheets; the
  active sheet of a new workbook is its only sheet.
\<close>

record font =
  font_name :: string
  font_size :: nat
  bold :: bool
  italic :: bool
  vertAlign :: "string option"
  underline :: string
  strike :: bool
  color :: string

record pattern_fill =
  start_color :: string
  end_color :: string
  fill_type :: string

record alignment =
  horizontal :: string
  vertical :: string

datatype cell_value =
    CNone
  | CNaN
  | CBool bool
  | CInt int
  | CFloat int int
  | CStr string

record cell =
  content :: cell_value
  cell_font :: "font option"
  cell_fill :: "pattern_fill option"
  cell_alignment :: "alignment option"

record column_dimension =
  dim_min :: nat
  dim_max :: nat
  dim_width :: nat

record worksheet =
  title :: string
  cells :: "((nat \<times> nat) \<times> cell) list"
  column_dimensions :: "(nat \<times> column_dimension) list"
  current_row :: nat

type_synonym workbook = "worksheet list"

text \<open>A data frame: its column labels and its rows; \<open>None\<close> marks a missing entry
  (the table library's \<^verbatim>\<open>NaN\<close>). The library may store the numbers of a column in another
  number type; that is not represented.\<close>

record dataframe =
  df_columns :: "json list"
  df_rows :: "json option list list"

section \<open>The world outside the process\<close>

datatype level = DEBUG | INFO | ERROR

text \<open>
  What the process does to the outside, in order: a log record, a TCP connection attempt
  (host, port, timeout in seconds), an HTTP POST (URL, headers), reading and writing the
  report file, creating the output directory.
\<close>

datatype event =
    Log level string
  | Connect string nat nat
  | Post string "(string \<times> json) list"
  | LoadWorkbook string
  | SaveWorkbook string
  | Makedirs string

text \<open>An HTTP answer: the status code and the body as \<^verbatim>\<open>json.loads\<close> decodes it
  (\<open>None\<close> when the body is not JSON).\<close>

datatype http_response = Response int "json option"

fun status_code :: "http_response \<Rightarrow> int" where
  "status_code (Response c b) = c"

fun body_json :: "http_response \<Rightarrow> json option" where
  "body_json (Response c b) = b"

text \<open>
  The world: the events so far, the report files on disk, and how the environment answers.
  The answer to a connection attempt, a POST, a save or a load may depend on how many of
  its kind came before (\<open>env_connect_ex w 0\<close> is the outcome of the first connection
  attempt); the clock and the directory test may depend on the number of events so far.
  \<open>env_shutdown_raises w n\<close> tells whether the \<^verbatim>\<open>shutdown\<close> that follows connection attempt
  \<open>n\<close> raises. The last two fields are the behaviour of the libraries on inputs this
  development does not spell out: the new title the spreadsheet library picks for a sheet
  whose title is taken, and the data frame the table library builds from anything but a
  list of records.
\<close>

record world =
  trace :: "event list"
  files :: "string \<Rightarrow> workbook option"
  env_connect_ex :: "nat \<Rightarrow> py_exception + int"
  env_shutdown_raises :: "nat \<Rightarrow> bool"
  env_post :: "nat \<Rightarrow> string \<Rightarrow> (string \<times> json) list \<Rightarrow> py_exception + http_response"
  env_save_raises :: "nat \<Rightarrow> bool"
  env_load_raises :: "nat \<Rightarrow> bool"
  env_now :: "nat \<Rightarrow> string"
  env_isdir :: "nat \<Rightarrow> string \<Rightarrow> bool"
  env_makedirs_raises :: "nat \<Rightarrow> bool"
  lib_avoid_duplicate_name :: "string list \<Rightarrow> string \<Rightarrow> string"
  lib_DataFrame :: "json \<Rightarrow> py_exception + dataframe"

fun is_connect :: "event \<Rightarrow> bool" where
  "is_connect (Connect h p t) = True"
| "is_connect _ = False"

fun is_post :: "event \<Rightarrow> bool" where
  "is_post (Post u h) = True"
| "is_post _ = False"

fun is_save :: "event \<Rightarrow> bool" where
  "is_save (SaveWorkbook f) = True"
| "is_save _ = False"

fun is_load :: "event \<Rightarrow> bool" where
  "is_load (LoadWorkbook f) = True"
| "is_load _ = False"

text \<open>A network call is a TCP connection attempt or an HTTP request.\<close>

definition is_network_call :: "event \<Rightarrow> bool" where
  "is_network_call e = (is_connect e \<or> is_post e)"

definition n_connect :: "world \<Rightarrow> nat" where
  "n_connect w = length (filter is_connect (trace w))"

definition n_post :: "world \<Rightarrow> nat" where
  "n_post w = length (filter is_post (trace w))"

definition n_save :: "world \<Rightarrow> nat" where
  "n_save w = length (filter is_save (trace w))"

definition n_load :: "world \<Rightarrow> nat" where
  "n_load w = length (filter is_load (trace w))"

text \<open>The events that happened between an earlier world and a later one.\<close>

definition emitted :: "world \<Rightarrow> world \<Rightarrow> event list" where
  "emitted w w' = drop (length (trace w)) (trace w')"

text \<open>A computation: it ends with a failure or a result, and leaves a world behind.\<close>

type_synonym 'a io = "world \<Rightarrow> (failure + 'a) \<times> world"

definition return_io :: "'a \<Rightarrow> 'a io" where
  "return_io x w = (Inr x, w)"

definition bind_io :: "'a io \<Rightarrow> ('a \<Rightarrow> 'b io) \<Rightarrow> 'b io" where
  "bind_io m f w = (case m w of (Inl e, w') \<Rightarrow> (Inl e, w') | (Inr x, w') \<Rightarrow> f x w')"

definition sys_exit :: "nat \<Rightarrow> 'a io" where
  "sys_exit n w = (Inl (Exit n), w)"

definition raise :: "py_exception \<Rightarrow> 'a io" where
  "raise e w = (Inl (Unhandled e), w)"

text \<open>A pure Python expression that may raise, run as a computation.\<close>

definition lift :: "py_exception + 'a \<Rightarrow> 'a io" where
  "lift r = (case r of Inl e \<Rightarrow> raise e | Inr x \<Rightarrow> return_io x)"

definition emit :: "event \<Rightarrow> world \<Rightarrow> world" where
  "emit e w = w\<lparr>trace := trace w @ [e]\<rparr>"

definition clock :: "world \<Rightarrow> nat" where
  "clock w = length (trace w)"

definition log :: "level \<Rightarrow> string \<Rightarrow> unit io" where
  "log lvl msg w = (Inr (), emit (Log lvl msg) w)"

text \<open>\<^verbatim>\<open>socket.connect_ex\<close>: returns the error indicator of the connection attempt (0 on
  success); problems such as an unknown host still raise.\<close>

definition socket_connect_ex :: "string \<Rightarrow> nat \<Rightarrow> nat \<Rightarrow> int io" where
  "socket_connect_ex host p timeout w =
     (case env_connect_ex w (n_connect w) of
        Inl e \<Rightarrow> (Inl (Unhandled e), emit (Connect host p timeout) w)
      | Inr rc \<Rightarrow> (Inr rc, emit (Connect host p timeout) w))"

text \<open>\<^verbatim>\<open>socket.shutdown\<close>: raises \<^verbatim>\<open>OSError\<close> when the operating system refuses it, as it
  does for a socket that is not connected.\<close>

definition socket_shutdown :: "unit io" where
  "socket_shutdown w = (if env_shutdown_raises w (n_connect w - 1) then (Inl (Unhandled OSError), w) else (Inr (), w))"

definition requests_post :: "string \<Rightarrow> (string \<times> json) list \<Rightarrow> http_response io" where
  "requests_post url headers w =
     (case env_post w (n_post w) url headers of
        Inl e \<Rightarrow> (Inl (Unhandled e), emit (Post url headers) w)
      | Inr r \<Rightarrow> (Inr r, emit (Post url headers) w))"

definition json_loads :: "json option \<Rightarrow> json io" where
  "json_loads b = (case b of None \<Rightarrow> raise JSONDecodeError | Some j \<Rightarrow> return_io j)"

text \<open>\<^verbatim>\<open>datetime.datetime.now().strftime('%Y-%m-%d_%H-%M-%S')\<close>\<close>

definition datetime_now :: "string io" where
  "datetime_now w = (Inr (env_now w (clock w)), w)"

section \<open>The client object\<close>

text \<open>
  The attributes of \<^verbatim>\<open>SV_system\<close>. The constructor assigns \<^verbatim>\<open>token_id\<close> and
  \<^verbatim>\<open>user_role\<close> only after it has made calls that use the object, so both are optional
  here: reading one that is not assigned yet raises \<^verbatim>\<open>AttributeError\<close>. Log records are
  events of the world; the logger object itself is not represented.
\<close>

record sv_system =
  IP :: string
  port :: string
  base_url :: string
  username :: string
  password :: string
  output_dir :: string
  verbose :: bool
  timestamp :: string
  master_file :: string
  log_file :: string
  token_id :: "json option"
  user_role :: "string option"
  first_run :: bool

definition getattr_token_id :: "sv_system \<Rightarrow> json io" where
  "getattr_token_id self = (case token_id self of None \<Rightarrow> raise AttributeError | Some t \<Rightarrow> return_io t)"

definition getattr_user_role :: "sv_system \<Rightarrow> string io" where
  "getattr_user_role self = (case user_role self of None \<Rightarrow> raise AttributeError | Some r \<Rightarrow> return_io r)"

text \<open>\<^verbatim>\<open>self._report_commands\<close>, assigned once by the constructor.\<close>

definition report_commands :: "string list" where
  "report_commands =
     [''lssystem'', ''lsnodecanister'', ''lssystemstats'', ''lsnodestats'', ''lsvdisk'',
      ''lshost'', ''lshostcluster'', ''lshostvdiskmap'', ''lshostclustervolumemap'',
      ''lsvdiskaccess'', ''lsvdiskcopy'', ''lsportfc'', ''lsfcconsistgrp'', ''lsiogrp'',
      ''lsmdiskgrp'', ''lssystemip'', ''lspartnership'', ''lseventlog'']"

subsection \<open>\<^verbatim>\<open>__check_connection\<close>\<close>

definition check_connection :: "sv_system \<Rightarrow> unit io" where
  "check_connection self =
     bind_io (lift (py_int (port self))) (\<lambda>port_number.
     bind_io (log DEBUG (''Starting check access to API port '' @ IP self @ '':'' @ port self)) (\<lambda>_.
     bind_io (socket_connect_ex (IP self) port_number 2) (\<lambda>open_port.
     bind_io socket_shutdown (\<lambda>_.
     if open_port \<noteq> 0 then
       bind_io (log ERROR (''API port '' @ port self @ '' cannot be reached for '' @ IP self)) (\<lambda>_.
       sys_exit 6)
     else
       log DEBUG (''Completed check access to API port '' @ IP self @ '':'' @ port self)))))"

subsection \<open>\<^verbatim>\<open>__get_token\<close>\<close>

definition get_token :: "sv_system \<Rightarrow> json io" where
  "get_token self =
     bind_io (check_connection self) (\<lambda>_.
     (let token_headers = [(''X-Auth-Username'', JStr (username self)),
                           (''X-Auth-Password'', JStr (password self)),
                           (''charset'', JStr ''utf-8'')];
          auth_url = base_url self @ ''auth''
      in
     bind_io (log DEBUG (''Getting auth token from '' @ IP self)) (\<lambda>_.
     bind_io (requests_post auth_url token_headers) (\<lambda>token_r.
     if status_code token_r = 200 then
       bind_io (json_loads (body_json token_r)) (\<lambda>token_d.
       bind_io (log INFO (''Got valid auth token from '' @ IP self)) (\<lambda>_.
       lift (getitem_str token_d ''token'')))
     else
       bind_io (log ERROR ''Cannot get auth token with these credentials'') (\<lambda>_.
       sys_exit 4)))))"

subsection \<open>\<^verbatim>\<open>__check_user_rights\<close>\<close>

definition CopyOperator_roles :: "string list" where
  "CopyOperator_roles = [''Administrator'', ''SecurityAdmin'', ''CopyOperator'', ''SecurityAdmin'']"

definition Admin_roles :: "string list" where
  "Admin_roles = [''Administrator'', ''SecurityAdmin'', ''SecurityAdmin'']"

definition check_user_rights :: "sv_system \<Rightarrow> string \<Rightarrow> bool io" where
  "check_user_rights self command =
     bind_io (log DEBUG (''Checking user '' @ username self @ '' has appropiate role for command '' @ command)) (\<lambda>_.
     if startswith command ''ls'' then
       bind_io (log DEBUG (''All groups can run '' @ command)) (\<lambda>_.
       return_io True)
     else if startswith command ''start'' \<or> startswith command ''stop'' \<or>
             startswith command ''prestart'' \<or> startswith command ''prestop'' then
       bind_io (getattr_user_role self) (\<lambda>role.
       if role \<in> set CopyOperator_roles then
         bind_io (log DEBUG (''Group '' @ role @ '' can run '' @ command)) (\<lambda>_.
         return_io True)
       else
         bind_io (log ERROR (''Group '' @ role @ '' cannot run '' @ command)) (\<lambda>_.
         sys_exit 5))
     else if startswith command ''add'' \<or> startswith command ''ch'' \<or>
             command = ''expandvdisksize'' \<or> startswith command ''mk'' \<or>
             command = ''movevdisk'' \<or> startswith command ''rm'' then
       bind_io (getattr_user_role self) (\<lambda>role.
       if role \<in> set Admin_roles then
         bind_io (log DEBUG (''Group '' @ role @ '' can run '' @ command)) (\<lambda>_.
         return_io True)
       else
         bind_io (log ERROR (''Group '' @ role @ '' cannot run '' @ command)) (\<lambda>_.
         sys_exit 5))
     else
       bind_io (log DEBUG (''Cannot match command '' @ command @ '' with any know command'')) (\<lambda>_.
       return_io False))"

subsection \<open>\<^verbatim>\<open>run_command\<close>\<close>

definition run_command :: "sv_system \<Rightarrow> string \<Rightarrow> json io" where
  "run_command self command =
     bind_io (check_connection self) (\<lambda>_.
     bind_io (check_user_rights self command) (\<lambda>has_right.
     bind_io (getattr_token_id self) (\<lambda>token.
     (let command_headers = [(''X-Auth-Token'', token)];
          command_url = base_url self @ command
      in
     bind_io (log DEBUG (''Going to send command run '' @ command @ '' to API'')) (\<lambda>_.
     bind_io (requests_post command_url command_headers) (\<lambda>cmd_r.
     if status_code cmd_r = 200 then
       bind_io (json_loads (body_json cmd_r)) (\<lambda>cmd_d.
       bind_io (log DEBUG (''Got HTTP 200 on command run '' @ command @ '' to API'')) (\<lambda>_.
       return_io cmd_d))
     else if has_right then
       bind_io (log ERROR (''Cannot run '' @ command @ '' to API'')) (\<lambda>_.
       sys_exit 3)
     else
       bind_io (log ERROR (''Cannot run '' @ command @ '' to API, likely is not a correct command'')) (\<lambda>_.
       sys_exit 3)))))))"

subsection \<open>\<^verbatim>\<open>__get_user_role\<close>\<close>

definition get_user_role :: "sv_system \<Rightarrow> string io" where
  "get_user_role self =
     bind_io (log DEBUG (''Going to query role of '' @ username self)) (\<lambda>_.
     bind_io (run_command self ''lscurrentuser'') (\<lambda>current_user.
     bind_io (lift (getitem_int current_user 1)) (\<lambda>entry.
     bind_io (lift (getitem_str entry ''role'')) (\<lambda>current_user_role.
     bind_io (lift (str_add (''Got role of '' @ username self @ '' is '') current_user_role)) (\<lambda>msg.
     bind_io (log DEBUG msg) (\<lambda>_.
     (case current_user_role of JStr r \<Rightarrow> return_io r | _ \<Rightarrow> raise TypeError)))))))"

subsection \<open>\<^verbatim>\<open>__add_timestamp\<close>, \<^verbatim>\<open>__create_output_dir\<close>, \<^verbatim>\<open>__set_logger_up\<close>\<close>

definition add_timestamp :: "sv_system \<Rightarrow> string io" where
  "add_timestamp self = bind_io datetime_now (\<lambda>time_now. return_io (IP self @ ''_'' @ time_now))"

definition os_path_isdir :: "string \<Rightarrow> bool io" where
  "os_path_isdir path w = (Inr (env_isdir w (clock w) path), w)"

definition os_makedirs :: "string \<Rightarrow> bool io" where
  "os_makedirs path w = (Inr (\<not> env_makedirs_raises w (clock w)), emit (Makedirs path) w)"

text \<open>\<open>os_makedirs\<close> returns whether the call went through; the \<^verbatim>\<open>except BaseException\<close>
  branch is taken when it did not.\<close>

definition create_output_dir :: "sv_system \<Rightarrow> unit io" where
  "create_output_dir self =
     bind_io (os_path_isdir (output_dir self)) (\<lambda>is_dir.
     if is_dir = False then
       bind_io (os_makedirs (output_dir self)) (\<lambda>created.
       if created then return_io ()
       else bind_io (add_timestamp self) (\<lambda>stamp. (\<lambda>w. (Inl (ExitMsg (stamp @ '': Cannot create '' @ output_dir self)), w))))
     else return_io ())"

definition set_logger_up :: "sv_system \<Rightarrow> unit io" where
  "set_logger_up self = create_output_dir self"

subsection \<open>\<^verbatim>\<open>__init__\<close>\<close>

definition init :: "string \<Rightarrow> string \<Rightarrow> string \<Rightarrow> string \<Rightarrow> bool \<Rightarrow> sv_system io" where
  "init ip user passwd out_dir verb =
     bind_io datetime_now (\<lambda>stamp.
     (let self = \<lparr> IP = ip, port = ''7443'',
                   base_url = ''https://'' @ ip @ '':'' @ ''7443'' @ ''/rest/'',
                   username = user, password = passwd, output_dir = out_dir, verbose = verb,
                   timestamp = stamp,
                   master_file = out_dir @ ''SVCheck_'' @ ip @ ''_'' @ stamp @ ''.xlsx'',
                   log_file = out_dir @ ''SVCheck_'' @ ip @ ''_'' @ stamp @ ''.log'',
                   token_id = None, user_role = None, first_run = True \<rparr>
      in
     bind_io (set_logger_up self) (\<lambda>_.
     bind_io (get_token self) (\<lambda>tok.
     (let self = self\<lparr>token_id := Some tok\<rparr> in
     bind_io (get_user_role self) (\<lambda>role.
     return_io (self\<lparr>user_role := Some role, first_run := True\<rparr>)))))))"

section \<open>The libraries' operations\<close>

text \<open>For a pure expression that may raise: run the next step on its result.\<close>

definition bind_exc :: "'e + 'a \<Rightarrow> ('a \<Rightarrow> 'e + 'b) \<Rightarrow> 'e + 'b" where
  "bind_exc r f = (case r of Inl e \<Rightarrow> Inl e | Inr x \<Rightarrow> f x)"

subsection \<open>The table library\<close>

text \<open>The elements of a list in the order of their first occurrence.\<close>

definition fast_unique :: "'a list \<Rightarrow> 'a list" where
  "fast_unique xs = rev (remdups (rev xs))"

text \<open>The records of a command result, when it is a list of objects.\<close>

fun record_of :: "json \<Rightarrow> (string \<times> json) list option" where
  "record_of (JObj d) = Some d"
| "record_of _ = None"

definition records_of :: "json \<Rightarrow> (string \<times> json) list list option" where
  "records_of data =
     (case data of
        JArr xs \<Rightarrow> (if list_all (\<lambda>x. record_of x \<noteq> None) xs then Some (map (\<lambda>x. the (record_of x)) xs) else None)
      | _ \<Rightarrow> None)"

text \<open>
  \<^verbatim>\<open>pd.DataFrame.from_dict(data)\<close>. From a list of records the table library builds one
  column per key, the keys of all records in the order of their first occurrence, and one
  row per record, with a missing entry where a record lacks a key. What it does with any
  other value is the world's \<open>lib_DataFrame\<close>.
\<close>

definition DataFrame_from_dict :: "json \<Rightarrow> dataframe io" where
  "DataFrame_from_dict data w =
     (case records_of data of
        Some rs \<Rightarrow>
          (let cols = fast_unique (concat (map (map fst) rs))
           in (Inr \<lparr> df_columns = map JStr cols, df_rows = map (\<lambda>r. map (map_of r) cols) rs \<rparr>, w))
      | None \<Rightarrow>
          (case lib_DataFrame w data of
             Inl e \<Rightarrow> (Inl (Unhandled e), w)
           | Inr df \<Rightarrow> (Inr df, w)))"

text \<open>
  \<^verbatim>\<open>dataframe_to_rows(df, index=False, header=True)\<close>: the row of column labels, then the
  data rows; a frame without columns yields no data row.
\<close>

definition dataframe_to_rows :: "dataframe \<Rightarrow> json option list list" where
  "dataframe_to_rows df =
     map Some (df_columns df) # (if df_columns df = [] then [] else df_rows df)"

subsection \<open>The spreadsheet library\<close>

definition default_cell :: cell where
  "default_cell = \<lparr> content = CNone, cell_font = None, cell_fill = None, cell_alignment = None \<rparr>"

definition empty_sheet :: "string \<Rightarrow> worksheet" where
  "empty_sheet t = \<lparr> title = t, cells = [], column_dimensions = [], current_row = 0 \<rparr>"

text \<open>\<^verbatim>\<open>Workbook()\<close>: a workbook with one empty sheet, titled \<^verbatim>\<open>Sheet\<close>.\<close>

definition Workbook :: workbook where
  "Workbook = [empty_sheet ''Sheet'']"

text \<open>The characters a sheet title must not hold: \<^verbatim>\<open>\ * ? : / [ ]\<close>.\<close>

definition invalid_title_char :: "char \<Rightarrow> bool" where
  "invalid_title_char c = (c \<in> set [CHR 0x5C, CHR ''*'', CHR ''?'', CHR '':'', CHR ''/'', CHR ''['', CHR '']''])"

text \<open>\<^verbatim>\<open>str.lower\<close>, on the letters A to Z.\<close>

definition lower_char :: "char \<Rightarrow> char" where
  "lower_char c =
     (case map_of (zip ''ABCDEFGHIJKLMNOPQRSTUVWXYZ'' ''abcdefghijklmnopqrstuvwxyz'') c of
        Some l \<Rightarrow> l
      | None \<Rightarrow> c)"

text \<open>
  A title that no sheet of the workbook has, compared without regard to case, is kept; for
  a title that is taken the library picks another one.
\<close>

definition avoid_duplicate_name :: "string list \<Rightarrow> string \<Rightarrow> string io" where
  "avoid_duplicate_name names v w =
     (if list_ex (\<lambda>n. map lower_char n = map lower_char v) names
      then (Inr (lib_avoid_duplicate_name w names v), w)
      else (Inr v, w))"

text \<open>\<^verbatim>\<open>ws.title = v\<close> for sheet number \<open>i\<close> of the workbook.\<close>

definition set_title :: "workbook \<Rightarrow> nat \<Rightarrow> string \<Rightarrow> workbook io" where
  "set_title wb i v =
     (if list_ex invalid_title_char v then raise ValueError
      else if title (wb ! i) \<noteq> v then
        bind_io (avoid_duplicate_name (map title wb) v) (\<lambda>t.
        return_io (wb[i := (wb ! i)\<lparr>title := t\<rparr>]))
      else return_io wb)"

text \<open>\<^verbatim>\<open>wb.create_sheet(t)\<close>: a new empty sheet at the end; an empty title stands for the
  default one.\<close>

definition create_sheet :: "workbook \<Rightarrow> string \<Rightarrow> workbook io" where
  "create_sheet wb t =
     (let v = (if t = [] then ''Sheet'' else t) in
      if list_ex invalid_title_char v then raise ValueError
      else
        bind_io (avoid_duplicate_name (map title wb) v) (\<lambda>t'.
        return_io (wb @ [empty_sheet t'])))"

text \<open>\<^verbatim>\<open>wb[name]\<close>: the position of the first sheet with that title.\<close>

fun sheet_index :: "workbook \<Rightarrow> string \<Rightarrow> py_exception + nat" where
  "sheet_index [] name = Inl KeyError"
| "sheet_index (ws # wb) name =
     (if title ws = name then Inr 0
      else (case sheet_index wb name of Inl e \<Rightarrow> Inl e | Inr i \<Rightarrow> Inr (Suc i)))"

text \<open>
  The value a cell takes: strings are cut to 32767 characters and must not hold a control
  character other than tab, line feed and carriage return; a list or an object cannot be
  put in a cell.
\<close>

definition illegal_character :: "char \<Rightarrow> bool" where
  "illegal_character c =
     ((of_char c :: nat) \<le> 8 \<or> (of_char c :: nat) = 11 \<or> (of_char c :: nat) = 12 \<or>
      (14 \<le> (of_char c :: nat) \<and> (of_char c :: nat) \<le> 31))"

fun bind_value :: "json option \<Rightarrow> py_exception + cell_value" where
  "bind_value None = Inr CNaN"
| "bind_value (Some JNull) = Inr CNone"
| "bind_value (Some (JBool b)) = Inr (CBool b)"
| "bind_value (Some (JInt n)) = Inr (CInt n)"
| "bind_value (Some (JFloat m e)) = Inr (CFloat m e)"
| "bind_value (Some (JStr s)) =
     (if list_ex illegal_character (take 32767 s) then Inl IllegalCharacterError
      else Inr (CStr (take 32767 s)))"
| "bind_value (Some (JArr xs)) = Inl ValueError"
| "bind_value (Some (JObj d)) = Inl ValueError"

text \<open>\<^verbatim>\<open>ws.append(row)\<close>: the values go into fresh cells of the next row, from column 1 on.\<close>

fun append_cells ::
  "nat \<Rightarrow> nat \<Rightarrow> json option list \<Rightarrow> ((nat \<times> nat) \<times> cell) list \<Rightarrow> py_exception + ((nat \<times> nat) \<times> cell) list" where
  "append_cells r c [] cs = Inr cs"
| "append_cells r c (v # vs) cs =
     (case bind_value v of
        Inl e \<Rightarrow> Inl e
      | Inr x \<Rightarrow> append_cells r (Suc c) vs (AList.update (r, c) (default_cell\<lparr>content := x\<rparr>) cs))"

definition ws_append :: "json option list \<Rightarrow> worksheet \<Rightarrow> py_exception + worksheet" where
  "ws_append row ws =
     (case append_cells (current_row ws + 1) 1 row (cells ws) of
        Inl e \<Rightarrow> Inl e
      | Inr cs \<Rightarrow> Inr (ws\<lparr>cells := cs, current_row := current_row ws + 1\<rparr>))"

text \<open>The bounds of the used area; each is 1 for a sheet without cells.\<close>

definition min_column :: "worksheet \<Rightarrow> nat" where
  "min_column ws = (if cells ws = [] then 1 else Min (set (map (\<lambda>kv. snd (fst kv)) (cells ws))))"

definition max_column :: "worksheet \<Rightarrow> nat" where
  "max_column ws = (if cells ws = [] then 1 else Max (set (map (\<lambda>kv. snd (fst kv)) (cells ws))))"

definition max_row :: "worksheet \<Rightarrow> nat" where
  "max_row ws = (if cells ws = [] then 1 else Max (set (map (\<lambda>kv. fst (fst kv)) (cells ws))))"

text \<open>\<^verbatim>\<open>ws.cell(row=r, column=c)\<close>: the cell at that place, created empty when there is none.\<close>

definition ws_cell :: "nat \<Rightarrow> nat \<Rightarrow> worksheet \<Rightarrow> worksheet" where
  "ws_cell r c ws =
     (case map_of (cells ws) (r, c) of
        Some x \<Rightarrow> ws
      | None \<Rightarrow> ws\<lparr>cells := cells ws @ [((r, c), default_cell)], current_row := max r (current_row ws)\<rparr>)"

text \<open>\<^verbatim>\<open>ws.cell(row=r, column=c).attribute = v\<close>, as a change \<open>f\<close> of the cell.\<close>

definition update_cell :: "(cell \<Rightarrow> cell) \<Rightarrow> nat \<Rightarrow> nat \<Rightarrow> worksheet \<Rightarrow> worksheet" where
  "update_cell f r c ws =
     (let ws' = ws_cell r c ws
      in ws'\<lparr>cells := map (\<lambda>kv. if fst kv = (r, c) then (fst kv, f (snd kv)) else kv) (cells ws')\<rparr>)"

text \<open>\<^verbatim>\<open>range(a, b, step)\<close> for a positive step, and \<^verbatim>\<open>range(a, b)\<close>.\<close>

definition range_step :: "nat \<Rightarrow> nat \<Rightarrow> nat \<Rightarrow> nat list" where
  "range_step a b step = filter (\<lambda>r. (r - a) mod step = 0) [a ..< b]"

text \<open>
  \<^verbatim>\<open>ws.iter_rows()\<close>: nothing for a sheet whose row counter is 0; otherwise the places of
  rows 1 to \<^verbatim>\<open>max_row\<close>, columns 1 to \<^verbatim>\<open>max_column\<close>, row by row.
\<close>

definition iter_rows :: "worksheet \<Rightarrow> (nat \<times> nat) list list" where
  "iter_rows ws =
     (if current_row ws = 0 then []
      else map (\<lambda>r. map (\<lambda>c. (r, c)) [1 ..< max_column ws + 1]) [1 ..< max_row ws + 1])"

text \<open>
  \<^verbatim>\<open>wb.save(path)\<close> and \<^verbatim>\<open>load_workbook(path)\<close>. The file is represented by the workbook
  written to it, and reading it gives that workbook back. A save that fails leaves the
  file as it was. \<open>wb_save\<close> returns whether the save went through.
\<close>

definition wb_save :: "workbook \<Rightarrow> string \<Rightarrow> bool io" where
  "wb_save wb path w =
     (if env_save_raises w (n_save w) then (Inr False, emit (SaveWorkbook path) w)
      else (Inr True, (emit (SaveWorkbook path) w)\<lparr>files := (files w)(path \<mapsto> wb)\<rparr>))"

definition load_workbook :: "string \<Rightarrow> workbook io" where
  "load_workbook path w =
     (if env_load_raises w (n_load w) then (Inl (Unhandled OSError), emit (LoadWorkbook path) w)
      else (case files w path of
              None \<Rightarrow> (Inl (Unhandled FileNotFoundError), emit (LoadWorkbook path) w)
            | Some wb \<Rightarrow> (Inr wb, emit (LoadWorkbook path) w)))"

section \<open>The report\<close>

subsection \<open>\<^verbatim>\<open>__format_lssystem_to_excel\<close>\<close>

text \<open>The entries of the dictionary literal: column name and the field it is read from.\<close>

definition lssystem_columns :: "(string \<times> string) list" where
  "lssystem_columns =
     [(''Product name'', ''product_name''),
      (''Product model'', ''name''),
      (''Serial'', ''id''),
      (''Code level'', ''code_level''),
      (''Console IP'', ''console_IP''),
      (''Contact organization'', ''email_organization''),
      (''Contact name'', ''email_contact''),
      (''Contact email'', ''email_reply''),
      (''Contact phone'', ''email_contact_primary''),
      (''Auth service'', ''auth_service_configured''),
      (''Auth service type'', ''auth_service_type''),
      (''Callhome'', ''enhanced_callhome''),
      (''Callhome censor'', ''censor_callhome''),
      (''Copy rate'', ''relationship_bandwidth_limit''),
      (''Local raw capacity'', ''total_drive_raw_capacity''),
      (''Physical total'', ''physical_capacity''),
      (''Physical free'', ''physical_free_capacity''),
      (''Easy tier'', ''easy_tier_acceleration''),
      (''Compression'', ''compression_active''),
      (''Compressed virtual'', ''compression_virtual_capacity''),
      (''Compressed capacity'', ''compression_compressed_capacity''),
      (''Uncompressed capacity'', ''compression_uncompressed_capacity''),
      (''Deduplication savings'', ''deduplication_capacity_saving''),
      (''Cache prefetch'', ''cache_prefetch'')]"

text \<open>The dictionary literal: its values are read in order, the first missing one raises.\<close>

fun read_fields :: "json \<Rightarrow> (string \<times> string) list \<Rightarrow> py_exception + (string \<times> json) list" where
  "read_fields obj [] = Inr []"
| "read_fields obj (cf # rest) =
     bind_exc (getitem_str obj (snd cf)) (\<lambda>v.
     bind_exc (read_fields obj rest) (\<lambda>d.
     Inr ((fst cf, v) # d)))"

text \<open>The loop over the tiers; \<^verbatim>\<open>d.update({k: v})\<close> replaces the value of a key that is
  there and adds the key at the end otherwise.\<close>

fun add_tiers :: "json list \<Rightarrow> (string \<times> json) list \<Rightarrow> py_exception + (string \<times> json) list" where
  "add_tiers [] row = Inr row"
| "add_tiers (tier # tiers) row =
     bind_exc (getitem_str tier ''tier'') (\<lambda>name1.
     bind_exc (add_str name1 ''_total'') (\<lambda>tier_key_total.
     bind_exc (getitem_str tier ''tier'') (\<lambda>name2.
     bind_exc (add_str name2 ''_free'') (\<lambda>tier_key_free.
     bind_exc (getitem_str tier ''tier_capacity'') (\<lambda>capacity.
     (let row = AList.update tier_key_total capacity row in
     bind_exc (getitem_str tier ''tier_free_capacity'') (\<lambda>free.
     (let row = AList.update tier_key_free free row in
     add_tiers tiers row))))))))"

definition format_lssystem_to_excel :: "sv_system \<Rightarrow> json io" where
  "format_lssystem_to_excel self =
     bind_io (run_command self ''lssystem'') (\<lambda>lssystem.
     bind_io (lift (read_fields lssystem lssystem_columns)) (\<lambda>row.
     bind_io (lift (getitem_str lssystem ''tiers'')) (\<lambda>tiers_field.
     bind_io (lift (py_iter tiers_field)) (\<lambda>tiers.
     bind_io (lift (add_tiers tiers row)) (\<lambda>row.
     return_io (JArr [JObj row]))))))"

subsection \<open>\<^verbatim>\<open>__format_sheet\<close>\<close>

definition HEADER_FONT :: font where
  "HEADER_FONT =
     \<lparr> font_name = ''Calibri'', font_size = 12, bold = True, italic = False, vertAlign = None,
       underline = ''none'', strike = False, color = ''000000'' \<rparr>"

definition header_fill :: pattern_fill where
  "header_fill = \<lparr> start_color = ''0066CC'', end_color = ''0066CC'', fill_type = ''darkGrid'' \<rparr>"

definition even_fill :: pattern_fill where
  "even_fill = \<lparr> start_color = ''66cc00'', end_color = ''66cc00'', fill_type = ''darkGrid'' \<rparr>"

definition odd_fill :: pattern_fill where
  "odd_fill = \<lparr> start_color = ''b3ff66'', end_color = ''b3ff66'', fill_type = ''lightGrid'' \<rparr>"

definition center :: alignment where
  "center = \<lparr> horizontal = ''center'', vertical = ''center'' \<rparr>"

definition set_font :: "font \<Rightarrow> nat \<Rightarrow> nat \<Rightarrow> worksheet \<Rightarrow> worksheet" where
  "set_font v = update_cell (\<lambda>x. x\<lparr>cell_font := Some v\<rparr>)"

definition set_fill :: "pattern_fill \<Rightarrow> nat \<Rightarrow> nat \<Rightarrow> worksheet \<Rightarrow> worksheet" where
  "set_fill v = update_cell (\<lambda>x. x\<lparr>cell_fill := Some v\<rparr>)"

definition set_alignment :: "alignment \<Rightarrow> nat \<Rightarrow> nat \<Rightarrow> worksheet \<Rightarrow> worksheet" where
  "set_alignment v = update_cell (\<lambda>x. x\<lparr>cell_alignment := Some v\<rparr>)"

text \<open>
  "Fix the width": a new dimension holder gets an entry of width 25 for each column from
  \<^verbatim>\<open>min_column\<close> to \<^verbatim>\<open>max_column\<close> and becomes the sheet's. A column number has a letter
  only from 1 to 18278; \<^verbatim>\<open>get_column_letter\<close> raises outside.
\<close>

fun fix_width_loop ::
  "nat list \<Rightarrow> (nat \<times> column_dimension) list \<Rightarrow> worksheet \<Rightarrow> py_exception + worksheet" where
  "fix_width_loop [] dim_holder ws = Inr ws"
| "fix_width_loop (the_col # cols) dim_holder ws =
     (if 1 \<le> the_col \<and> the_col \<le> 18278 then
        (let dim_holder = AList.update the_col \<lparr> dim_min = the_col, dim_max = the_col, dim_width = 25 \<rparr> dim_holder
         in fix_width_loop cols dim_holder (ws\<lparr>column_dimensions := dim_holder\<rparr>))
      else Inl ValueError)"

definition fix_width :: "worksheet \<Rightarrow> py_exception + worksheet" where
  "fix_width ws = fix_width_loop [min_column ws ..< max_column ws + 1] [] ws"

text \<open>"Set the header": font and fill of row 1, columns \<^verbatim>\<open>min_column\<close> to \<^verbatim>\<open>max_column\<close>.\<close>

definition set_header :: "worksheet \<Rightarrow> worksheet" where
  "set_header ws =
     fold (\<lambda>the_col ws. set_fill header_fill 1 the_col (set_font HEADER_FONT 1 the_col ws))
       [min_column ws ..< max_column ws + 1] ws"

text \<open>"Center all": every cell that \<^verbatim>\<open>iter_rows\<close> yields; the cells of a row are all
  fetched (and created) before the first of them is changed.\<close>

definition center_all :: "worksheet \<Rightarrow> worksheet" where
  "center_all ws =
     fold (\<lambda>row_cells ws.
             fold (\<lambda>rc ws. set_alignment center (fst rc) (snd rc) ws) row_cells
               (fold (\<lambda>rc ws. ws_cell (fst rc) (snd rc) ws) row_cells ws))
       (iter_rows ws) ws"

text \<open>"Create alternate colors": the even rows from 2, then the odd rows from 3.\<close>

definition fill_rows :: "pattern_fill \<Rightarrow> nat list \<Rightarrow> worksheet \<Rightarrow> worksheet" where
  "fill_rows v the_rows ws =
     fold (\<lambda>the_row ws.
             fold (\<lambda>the_col ws. set_fill v the_row the_col ws) [1 ..< max_column ws + 1] ws)
       the_rows ws"

definition alternate_colors :: "worksheet \<Rightarrow> worksheet" where
  "alternate_colors ws =
     (let ws = fill_rows even_fill (range_step 2 (max_row ws + 1) 2) ws
      in fill_rows odd_fill (range_step 3 (max_row ws + 1) 2) ws)"

definition format_sheet :: "sv_system \<Rightarrow> worksheet \<Rightarrow> string \<Rightarrow> worksheet io" where
  "format_sheet self ws command =
     bind_io (log DEBUG (''Starting formating '' @ command @ '' information into Excel file'')) (\<lambda>_.
     bind_io (log DEBUG (''Starting fixing width for '' @ command @ '' sheet'')) (\<lambda>_.
     bind_io (lift (fix_width ws)) (\<lambda>ws.
     bind_io (log DEBUG (''Completed fixing width for '' @ command @ '' sheet'')) (\<lambda>_.
     bind_io (log DEBUG (''Starting setting header for '' @ command @ '' sheet'')) (\<lambda>_.
     (let ws = set_header ws in
     bind_io (log DEBUG (''Completed setting header for '' @ command @ '' sheet'')) (\<lambda>_.
     bind_io (log DEBUG (''Starting centering cells for '' @ command @ '' sheet'')) (\<lambda>_.
     (let ws = center_all ws in
     bind_io (log DEBUG (''Completed centering cells for '' @ command @ '' sheet'')) (\<lambda>_.
     bind_io (log DEBUG (''Starting coloring alternate rows for '' @ command @ '' sheet'')) (\<lambda>_.
     (let ws = alternate_colors ws in
     bind_io (log DEBUG (''Completed coloring alternate rows for '' @ command @ '' sheet'')) (\<lambda>_.
     bind_io (log DEBUG (''Completed formating '' @ command @ '' information into Excel file'')) (\<lambda>_.
     return_io ws))))))))))))))"

subsection \<open>\<^verbatim>\<open>__save_excel\<close>\<close>

definition save_excel :: "sv_system \<Rightarrow> workbook \<Rightarrow> string \<Rightarrow> unit io" where
  "save_excel self wb command =
     bind_io (log DEBUG (''Starting saving '' @ command @ '' information into Excel file'')) (\<lambda>_.
     bind_io (wb_save wb (master_file self)) (\<lambda>saved.
     if saved then
       log INFO (''Completed saving '' @ command @ '' information into Excel file'')
     else
       bind_io (log ERROR (''Cannot write '' @ master_file self)) (\<lambda>_.
       sys_exit 2)))"

subsection \<open>\<^verbatim>\<open>__parse_command_to_excel\<close>\<close>

text \<open>Lines 276 to 285: the command result goes through a data frame into the sheet.\<close>

fun append_rows :: "json option list list \<Rightarrow> worksheet \<Rightarrow> py_exception + worksheet" where
  "append_rows [] ws = Inr ws"
| "append_rows (r # rs) ws = bind_exc (ws_append r ws) (append_rows rs)"

definition import_data :: "string \<Rightarrow> json \<Rightarrow> worksheet \<Rightarrow> worksheet io" where
  "import_data command cmd_list ws =
     bind_io (log DEBUG (''Loading '' @ command @ '' information on Pandas dataframe'')) (\<lambda>_.
     bind_io (DataFrame_from_dict cmd_list) (\<lambda>df.
     bind_io (log DEBUG (''Loaded '' @ command @ '' information on Pandas dataframe'')) (\<lambda>_.
     bind_io (log DEBUG (''Starting loading '' @ command @ '' information into Excel file'')) (\<lambda>_.
     bind_io (lift (append_rows (dataframe_to_rows df) ws)) (\<lambda>ws.
     bind_io (log DEBUG (''Completed loading '' @ command @ '' information into Excel file'')) (\<lambda>_.
     return_io ws))))))"

text \<open>
  The sheet \<^verbatim>\<open>ws\<close> is a reference into the workbook: here the workbook and the position of
  the sheet in it. The first branch returns the object with \<^verbatim>\<open>first_run\<close> cleared.
\<close>

definition open_sheet :: "sv_system \<Rightarrow> string \<Rightarrow> (workbook \<times> nat \<times> sv_system) io" where
  "open_sheet self command =
     (if first_run self then
        (let wb = Workbook; ws = 0 in
         bind_io (set_title wb ws command) (\<lambda>wb.
         return_io (wb, ws, self\<lparr>first_run := False\<rparr>)))
      else
        bind_io (load_workbook (master_file self)) (\<lambda>wb.
        bind_io (create_sheet wb command) (\<lambda>wb.
        bind_io (lift (sheet_index wb command)) (\<lambda>ws.
        return_io (wb, ws, self)))))"

definition parse_command_to_excel :: "sv_system \<Rightarrow> string \<Rightarrow> sv_system io" where
  "parse_command_to_excel self command =
     bind_io (open_sheet self command) (\<lambda>opened.
     (let wb = fst opened; ws = fst (snd opened); self = snd (snd opened) in
     bind_io (log DEBUG (''Gathering '' @ command @ '' information from '' @ IP self)) (\<lambda>_.
     bind_io (if command = ''lssystem'' then format_lssystem_to_excel self
              else run_command self command) (\<lambda>cmd_list.
     bind_io (log DEBUG (''Completed gathering '' @ command @ '' information from '' @ IP self)) (\<lambda>_.
     bind_io (import_data command cmd_list (wb ! ws)) (\<lambda>sheet.
     bind_io (format_sheet self sheet command) (\<lambda>sheet.
     bind_io (save_excel self (wb[ws := sheet]) command) (\<lambda>_.
     return_io self))))))))"

subsection \<open>\<^verbatim>\<open>generate_excel_report\<close>\<close>

fun for_commands :: "string list \<Rightarrow> sv_system \<Rightarrow> sv_system io" where
  "for_commands [] self = return_io self"
| "for_commands (command # rest) self =
     bind_io (parse_command_to_excel self command) (for_commands rest)"

definition generate_excel_report :: "sv_system \<Rightarrow> sv_system io" where
  "generate_excel_report self =
     bind_io (for_commands report_commands self) (\<lambda>self.
     bind_io (log INFO (''Succesfully generated '' @ master_file self @ '' report'')) (\<lambda>_.
     return_io self))"

section \<open>Notions used in the statements\<close>

text \<open>Whether a value is an object with a given key, and the value under a key.\<close>

fun has_key :: "json \<Rightarrow> string \<Rightarrow> bool" where
  "has_key (JObj d) k = (k \<in> fst ` set d)"
| "has_key _ k = False"

definition field :: "json \<Rightarrow> string \<Rightarrow> json option" where
  "field obj k = (case getitem_str obj k of Inl e \<Rightarrow> None | Inr v \<Rightarrow> Some v)"


text \<open>The name of a tier entry; an entry the tier loop accepts: an object whose \<^verbatim>\<open>tier\<close>
  is a string and that has both capacities; what the loop body does to the row for it.\<close>

definition tier_name :: "json \<Rightarrow> string" where
  "tier_name t = (case field t ''tier'' of Some (JStr n) \<Rightarrow> n | _ \<Rightarrow> [])"

definition tier_ok :: "json \<Rightarrow> bool" where
  "tier_ok t =
     ((\<exists>n. field t ''tier'' = Some (JStr n)) \<and> has_key t ''tier_capacity'' \<and>
      has_key t ''tier_free_capacity'')"

definition put_tier :: "json \<Rightarrow> (string \<times> json) list \<Rightarrow> (string \<times> json) list" where
  "put_tier t row =
     AList.update (tier_name t @ ''_free'') (the (field t ''tier_free_capacity''))
       (AList.update (tier_name t @ ''_total'') (the (field t ''tier_capacity'')) row)"

definition tier_columns :: "json \<Rightarrow> (string \<times> json) list" where
  "tier_columns t =
     [(tier_name t @ ''_total'', the (field t ''tier_capacity'')),
      (tier_name t @ ''_free'', the (field t ''tier_free_capacity''))]"

text \<open>The log record that opens every authorization check.\<close>

fun is_check_record :: "event \<Rightarrow> bool" where
  "is_check_record (Log l s) = (l = DEBUG \<and> startswith s ''Checking user '')"
| "is_check_record _ = False"

text \<open>The commands of the policy's third row (Mutate), as the source tests for them.\<close>

definition is_mutate :: "string \<Rightarrow> bool" where
  "is_mutate command =
     (startswith command ''add'' \<or> startswith command ''ch'' \<or> command = ''expandvdisksize'' \<or>
      startswith command ''mk'' \<or> command = ''movevdisk'' \<or> startswith command ''rm'')"

text \<open>\<open>emits A m\<close>: whatever the world, \<open>m\<close> only adds events of \<open>A\<close> to the trace.
  \<open>fails_only F m\<close>: if \<open>m\<close> fails, then with a failure of \<open>F\<close>.\<close>

definition emits :: "event set \<Rightarrow> 'a io \<Rightarrow> bool" where
  "emits A m = (\<forall>w. \<exists>evs. trace (snd (m w)) = trace w @ evs \<and> set evs \<subseteq> A)"

definition fails_only :: "failure set \<Rightarrow> 'a io \<Rightarrow> bool" where
  "fails_only F m = (\<forall>w e. fst (m w) = Inl e \<longrightarrow> e \<in> F)"

text \<open>\<open>preserves I m\<close>: \<open>m\<close> keeps the property \<open>I\<close> of the world. \<open>untraced I\<close>: \<open>I\<close> does not
  depend on the trace.\<close>

definition preserves :: "(world \<Rightarrow> bool) \<Rightarrow> 'a io \<Rightarrow> bool" where
  "preserves I m = (\<forall>w. I w \<longrightarrow> I (snd (m w)))"

definition untraced :: "(world \<Rightarrow> bool) \<Rightarrow> bool" where
  "untraced I = (\<forall>w evs. I w \<longrightarrow> I (w\<lparr>trace := evs\<rparr>))"

text \<open>The titles of the sheets in the report file on disk, in order; none without a file.\<close>

definition sheet_names :: "sv_system \<Rightarrow> world \<Rightarrow> string list" where
  "sheet_names self w = (case files w (master_file self) of None \<Rightarrow> [] | Some wb \<Rightarrow> map title wb)"


text \<open>
  A title the spreadsheet library takes as it is, given the titles in the workbook: not
  empty, without a forbidden character, and not taken (compared without regard to case).
  A command list whose titles are all taken as they are, given the titles of the sheets
  already in the report (the first sheet is made in a new workbook, which has a sheet
  titled \<^verbatim>\<open>Sheet\<close>).
\<close>

definition fresh_title :: "string list \<Rightarrow> string \<Rightarrow> bool" where
  "fresh_title names c =
     (c \<noteq> [] \<and> \<not> list_ex invalid_title_char c \<and>
      \<not> list_ex (\<lambda>n. map lower_char n = map lower_char c) names)"

fun fresh_titles :: "string list \<Rightarrow> string list \<Rightarrow> bool" where
  "fresh_titles names [] = True"
| "fresh_titles names (c # cs) =
     (fresh_title (if names = [] then [''Sheet''] else names) c \<and> fresh_titles (names @ [c]) cs)"


text \<open>Lines 269 to 291 of \<^verbatim>\<open>__parse_command_to_excel\<close>: from the command to the formatted
  sheet.\<close>

definition build_sheet :: "sv_system \<Rightarrow> string \<Rightarrow> worksheet \<Rightarrow> worksheet io" where
  "build_sheet self command ws =
     bind_io (log DEBUG (''Gathering '' @ command @ '' information from '' @ IP self)) (\<lambda>_.
     bind_io (if command = ''lssystem'' then format_lssystem_to_excel self
              else run_command self command) (\<lambda>cmd_list.
     bind_io (log DEBUG (''Completed gathering '' @ command @ '' information from '' @ IP self)) (\<lambda>_.
     bind_io (import_data command cmd_list ws) (\<lambda>sheet.
     format_sheet self sheet command))))"


text \<open>How far the report has got: before the first sheet there is no file and
  \<^verbatim>\<open>first_run\<close> is set; afterwards the file holds the finished sheets.\<close>

definition progress :: "sv_system \<Rightarrow> world \<Rightarrow> string list \<Rightarrow> bool" where
  "progress self w finished =
     (if finished = [] then first_run self \<and> files w (master_file self) = None
      else \<not> first_run self \<and> (\<exists>wb. files w (master_file self) = Some wb \<and> map title wb = finished))"

text \<open>
  The cells that appending the rows of a table to a sheet creates: the value at position \<open>j\<close> of
  the \<open>i\<close>-th row appended goes to row \<open>r + i\<close>, column \<open>j\<close>, as the spreadsheet library
  stores it, with no style. \<open>rows_below\<close>: no cell lies below the row counter of the sheet.
\<close>

definition stored :: "json option \<Rightarrow> cell_value" where
  "stored v = (case bind_value v of Inl e \<Rightarrow> CNone | Inr x \<Rightarrow> x)"

fun row_cells :: "nat \<Rightarrow> nat \<Rightarrow> json option list \<Rightarrow> ((nat \<times> nat) \<times> cell) list" where
  "row_cells r c [] = []"
| "row_cells r c (v # vs) = ((r, c), default_cell\<lparr>content := stored v\<rparr>) # row_cells r (Suc c) vs"




section \<open>Concrete inputs\<close>

text \<open>
  A client as the constructor leaves it for the array at 10.0.0.1, with a given role, and a
  world in which the array is reachable and answers every request with status 200: a token
  for \<^verbatim>\<open>auth\<close>, the two-element answer of \<^verbatim>\<open>lscurrentuser\<close>, a given answer for
  \<^verbatim>\<open>lssystem\<close>, and a one-record list for every other command. No report file exists yet.
\<close>

definition client :: "string option \<Rightarrow> sv_system" where
  "client role =
     \<lparr> IP = ''10.0.0.1'', port = ''7443'', base_url = ''https://10.0.0.1:7443/rest/'',
       username = ''operator'', password = ''secret'', output_dir = ''./output/'',
       verbose = False, timestamp = ''2024-01-01_00-00-00'',
       master_file = ''./output/SVCheck_10.0.0.1_2024-01-01_00-00-00.xlsx'',
       log_file = ''./output/SVCheck_10.0.0.1_2024-01-01_00-00-00.log'',
       token_id = Some (JStr ''t0k3n''), user_role = role, first_run = True \<rparr>"

text \<open>A tier entry and an answer to \<^verbatim>\<open>lssystem\<close> with given tier entries. The answer also has
  the two fields the transform leaves out (\<^verbatim>\<open>quorum_lease\<close>, \<^verbatim>\<open>has_nas_key\<close>).\<close>

definition tier_entry :: "string \<Rightarrow> string \<Rightarrow> string \<Rightarrow> json" where
  "tier_entry name capacity free =
     JObj [(''tier'', JStr name), (''tier_capacity'', JStr capacity), (''tier_free_capacity'', JStr free)]"

definition lssystem_answer :: "json list \<Rightarrow> json" where
  "lssystem_answer tiers =
     JObj [(''id'', JStr ''0000020421400428''),
           (''name'', JStr ''FS9100''),
           (''console_IP'', JStr ''10.0.0.1:443''),
           (''code_level'', JStr ''8.4.0.0''),
           (''product_name'', JStr ''IBM FlashSystem 9100''),
           (''email_organization'', JStr ''ACME''),
           (''email_contact'', JStr ''Jane''),
           (''email_reply'', JStr ''jane@acme.example''),
           (''email_contact_primary'', JStr ''555-0100''),
           (''auth_service_configured'', JStr ''no''),
           (''auth_service_type'', JStr ''ldap''),
           (''enhanced_callhome'', JStr ''on''),
           (''censor_callhome'', JStr ''off''),
           (''quorum_lease'', JStr ''short''),
           (''relationship_bandwidth_limit'', JStr ''25''),
           (''total_drive_raw_capacity'', JStr ''40.00TB''),
           (''physical_capacity'', JStr ''30.00TB''),
           (''physical_free_capacity'', JStr ''9.00TB''),
           (''easy_tier_acceleration'', JStr ''off''),
           (''has_nas_key'', JStr ''no''),
           (''compression_active'', JStr ''yes''),
           (''compression_virtual_capacity'', JStr ''5.00TB''),
           (''compression_compressed_capacity'', JStr ''1.00TB''),
           (''compression_uncompressed_capacity'', JStr ''2.00TB''),
           (''deduplication_capacity_saving'', JStr ''0.00MB''),
           (''cache_prefetch'', JStr ''on''),
           (''tiers'', JArr tiers)]"


definition answer :: "json \<Rightarrow> string \<Rightarrow> json" where
  "answer lssystem url =
     (if url = ''https://10.0.0.1:7443/rest/auth'' then JObj [(''token'', JStr ''t0k3n'')]
      else if url = ''https://10.0.0.1:7443/rest/lscurrentuser''
        then JArr [JObj [(''name'', JStr ''operator'')], JObj [(''role'', JStr ''Monitor'')]]
      else if url = ''https://10.0.0.1:7443/rest/lssystem'' then lssystem
      else JArr [JObj [(''id'', JStr ''0''), (''name'', JStr ''node1'')]])"

definition array_world :: "json \<Rightarrow> world" where
  "array_world lssystem =
     \<lparr> trace = [], files = (\<lambda>f. None),
       env_connect_ex = (\<lambda>n. Inr 0), env_shutdown_raises = (\<lambda>n. False),
       env_post = (\<lambda>n url headers. Inr (Response 200 (Some (answer lssystem url)))),
       env_save_raises = (\<lambda>n. False), env_load_raises = (\<lambda>n. False),
       env_now = (\<lambda>n. ''2024-01-01_00-00-00''),
       env_isdir = (\<lambda>n d. True), env_makedirs_raises = (\<lambda>n. False),
       lib_avoid_duplicate_name = (\<lambda>names t. t @ ''1''),
       lib_DataFrame = (\<lambda>j. Inl ValueError) \<rparr>"

definition reachable_world :: world where
  "reachable_world =
     array_world (lssystem_answer [tier_entry ''tier0_flash'' ''10.00TB'' ''4.00TB'',
                                   tier_entry ''tier1_enterprise'' ''20.00TB'' ''5.00TB''])"


text \<open>The same array answering \<^verbatim>\<open>lssystem\<close> without the field \<^verbatim>\<open>cache_prefetch\<close>.\<close>

definition short_answer_world :: world where
  "short_answer_world = array_world (JObj (butlast (butlast (case lssystem_answer [] of JObj d \<Rightarrow> d | _ \<Rightarrow> []))))"

text \<open>
  The same array with the API port closed: the connection attempt is refused (error 111,
  \<^verbatim>\<open>ECONNREFUSED\<close>), and the operating system refuses to shut down a socket that was
  never connected (\<^verbatim>\<open>ENOTCONN\<close>), which \<^verbatim>\<open>socket.shutdown\<close> raises as \<^verbatim>\<open>OSError\<close>.
\<close>

definition refusing_world :: world where
  "refusing_world =
     reachable_world \<lparr> env_connect_ex := (\<lambda>n. Inr 111), env_shutdown_raises := (\<lambda>n. True) \<rparr>"



section \<open>Properties of the authorization gate and of command execution\<close>

subsection \<open>What a computation emits and how it can fail\<close>

lemma emits_mono: "emits A m \<Longrightarrow> A \<subseteq> B \<Longrightarrow> emits B m"
  unfolding emits_def by (meson subset_trans)

lemma emits_return: "emits A (return_io x)"
  by (simp add: emits_def return_io_def)

lemma emits_raise: "emits A (raise e)"
  by (simp add: emits_def raise_def)

lemma emits_sys_exit: "emits A (sys_exit n)"
  by (simp add: emits_def sys_exit_def)

lemma emits_lift: "emits A (lift r)"
  by (cases r) (simp_all add: lift_def emits_raise emits_return)

lemma emits_bind:
  assumes "emits A m" and "\<And>x. emits A (f x)"
  shows "emits A (bind_io m f)"
  unfolding emits_def
proof
  fix w
  obtain r w1 where m: "m w = (r, w1)" by (cases "m w")
  from assms(1) m obtain e1 where e1: "trace w1 = trace w @ e1" "set e1 \<subseteq> A"
    unfolding emits_def by (metis snd_conv)
  show "\<exists>evs. trace (snd (bind_io m f w)) = trace w @ evs \<and> set evs \<subseteq> A"
  proof (cases r)
    case (Inl e)
    then show ?thesis using m e1 by (simp add: bind_io_def)
  next
    case (Inr x)
    from assms(2)[of x] obtain e2 where "trace (snd (f x w1)) = trace w1 @ e2" "set e2 \<subseteq> A"
      unfolding emits_def by blast
    then show ?thesis using m e1 Inr by (simp add: bind_io_def)
  qed
qed

lemma emits_bind_fail: "(\<And>w. isl (fst (m w))) \<Longrightarrow> emits A m \<Longrightarrow> emits A (bind_io m f)"
  unfolding emits_def bind_io_def
  by (auto split: prod.splits sum.splits) (metis fst_conv snd_conv sum.disc(2))+

lemma emits_if: "(c \<Longrightarrow> emits A a) \<Longrightarrow> (\<not> c \<Longrightarrow> emits A b) \<Longrightarrow> emits A (if c then a else b)"
  by simp

lemma emits_getattr_token: "emits A (getattr_token_id self)"
  by (simp add: getattr_token_id_def emits_raise emits_return split: option.splits)

lemma emits_getattr_role: "emits A (getattr_user_role self)"
  by (simp add: getattr_user_role_def emits_raise emits_return split: option.splits)

lemma emits_json_loads: "emits A (json_loads b)"
  by (simp add: json_loads_def emits_raise emits_return split: option.splits)

lemma emits_shutdown: "emits A socket_shutdown"
  by (simp add: emits_def socket_shutdown_def)

lemma emits_datetime: "emits A datetime_now"
  by (simp add: emits_def datetime_now_def)

lemma emits_log: "Log l s \<in> A \<Longrightarrow> emits A (log l s)"
  by (simp add: emits_def log_def emit_def)

lemma emits_connect: "Connect h p t \<in> A \<Longrightarrow> emits A (socket_connect_ex h p t)"
  by (auto simp: emits_def socket_connect_ex_def emit_def split: sum.splits)

lemma emits_post: "Post u h \<in> A \<Longrightarrow> emits A (requests_post u h)"
  by (auto simp: emits_def requests_post_def emit_def split: sum.splits)

lemmas emits_intros =
  emits_return emits_raise emits_sys_exit emits_lift emits_bind emits_if emits_getattr_token
  emits_getattr_role emits_json_loads emits_shutdown emits_datetime emits_log emits_connect
  emits_post

lemma emits_emitted: "emits A m \<Longrightarrow> set (emitted w (snd (m w))) \<subseteq> A"
  unfolding emits_def emitted_def by (metis append_eq_conv_conj)

lemma emits_trace: "emits A m \<Longrightarrow> trace (snd (m w)) = trace w @ emitted w (snd (m w))"
  unfolding emits_def emitted_def by (metis append_eq_conv_conj)

lemma fails_only_return: "fails_only F (return_io x)"
  by (simp add: fails_only_def return_io_def)

lemma fails_only_raise: "Unhandled e \<in> F \<Longrightarrow> fails_only F (raise e)"
  by (simp add: fails_only_def raise_def)

lemma fails_only_sys_exit: "Exit n \<in> F \<Longrightarrow> fails_only F (sys_exit n)"
  by (simp add: fails_only_def sys_exit_def)

lemma fails_only_lift: "(\<And>e. Unhandled e \<in> F) \<Longrightarrow> fails_only F (lift r)"
  by (cases r) (simp_all add: lift_def fails_only_raise fails_only_return)

lemma fails_only_bind:
  "fails_only F m \<Longrightarrow> (\<And>x. fails_only F (f x)) \<Longrightarrow> fails_only F (bind_io m f)"
  unfolding fails_only_def bind_io_def
  by (auto split: prod.splits sum.splits) (metis fst_conv)+

lemma fails_only_if:
  "(c \<Longrightarrow> fails_only F a) \<Longrightarrow> (\<not> c \<Longrightarrow> fails_only F b) \<Longrightarrow> fails_only F (if c then a else b)"
  by simp

lemma fails_only_getattr_token: "Unhandled AttributeError \<in> F \<Longrightarrow> fails_only F (getattr_token_id self)"
  by (simp add: getattr_token_id_def fails_only_raise fails_only_return split: option.splits)

lemma fails_only_getattr_role: "Unhandled AttributeError \<in> F \<Longrightarrow> fails_only F (getattr_user_role self)"
  by (simp add: getattr_user_role_def fails_only_raise fails_only_return split: option.splits)

lemma fails_only_json_loads: "Unhandled JSONDecodeError \<in> F \<Longrightarrow> fails_only F (json_loads b)"
  by (simp add: json_loads_def fails_only_raise fails_only_return split: option.splits)

lemma fails_only_shutdown: "Unhandled OSError \<in> F \<Longrightarrow> fails_only F socket_shutdown"
  by (simp add: fails_only_def socket_shutdown_def)

lemma fails_only_datetime: "fails_only F datetime_now"
  by (simp add: fails_only_def datetime_now_def)

lemma fails_only_log: "fails_only F (log l s)"
  by (simp add: fails_only_def log_def emit_def)

lemma fails_only_connect: "(\<And>e. Unhandled e \<in> F) \<Longrightarrow> fails_only F (socket_connect_ex h p t)"
  by (auto simp: fails_only_def socket_connect_ex_def emit_def split: sum.splits)

lemma fails_only_post: "(\<And>e. Unhandled e \<in> F) \<Longrightarrow> fails_only F (requests_post u h)"
  by (auto simp: fails_only_def requests_post_def emit_def split: sum.splits)

lemmas fails_only_intros =
  fails_only_return fails_only_raise fails_only_sys_exit fails_only_lift fails_only_bind
  fails_only_if fails_only_getattr_token fails_only_getattr_role fails_only_json_loads
  fails_only_shutdown fails_only_datetime fails_only_log fails_only_connect fails_only_post

subsection \<open>The connectivity probe, the authorization check, a command\<close>

lemma check_connection_emits:
  "emits {e. \<not> is_post e \<and> \<not> is_check_record e} (check_connection self)"
  unfolding check_connection_def
  by (intro emits_intros) (simp_all add: startswith_def)

lemma check_connection_no_post: "emits {e. \<not> is_post e} (check_connection self)"
  by (rule emits_mono[OF check_connection_emits]) auto

lemma check_user_rights_no_post: "emits {e. \<not> is_post e} (check_user_rights self c)"
  unfolding check_user_rights_def
  by (intro emits_intros) simp_all

lemma check_connection_fails_only:
  "(\<And>e. Unhandled e \<in> F) \<Longrightarrow> Exit 6 \<in> F \<Longrightarrow> fails_only F (check_connection self)"
  unfolding check_connection_def
  by (intro fails_only_intros) simp_all

lemma check_user_rights_ls_fails_only:
  "startswith c ''ls'' \<Longrightarrow> fails_only F (check_user_rights self c)"
  unfolding check_user_rights_def
  by (intro fails_only_intros) simp_all

lemma run_command_ls_fails_only:
  "startswith c ''ls'' \<Longrightarrow> (\<And>e. Unhandled e \<in> F) \<Longrightarrow> Exit 6 \<in> F \<Longrightarrow> Exit 3 \<in> F \<Longrightarrow>
     fails_only F (run_command self c)"
  unfolding run_command_def Let_def
  by (intro fails_only_intros check_connection_fails_only check_user_rights_ls_fails_only) simp_all

lemma run_command_emits: "emits UNIV (run_command self c)"
  unfolding run_command_def Let_def
  by (intro emits_intros emits_mono[OF check_connection_emits] emits_mono[OF check_user_rights_no_post])
     simp_all

lemma startswith_Cons:
  "startswith s (c # p) = (case s of [] \<Rightarrow> False | x # xs \<Rightarrow> x = c \<and> startswith xs p)"
  by (cases s) (auto simp: startswith_def)

lemma mutate_not_earlier:
  "is_mutate c \<Longrightarrow>
     \<not> startswith c ''ls'' \<and> \<not> startswith c ''start'' \<and> \<not> startswith c ''stop'' \<and>
     \<not> startswith c ''prestart'' \<and> \<not> startswith c ''prestop''"
  by (cases c) (auto simp: is_mutate_def startswith_Cons)

lemma check_user_rights_mutate:
  assumes "is_mutate c" and "user_role self = Some role"
  shows "check_user_rights self c w =
    (let w1 = emit (Log DEBUG (''Checking user '' @ username self @
                      '' has appropiate role for command '' @ c)) w
     in if role \<in> set Admin_roles
        then (Inr True, emit (Log DEBUG (''Group '' @ role @ '' can run '' @ c)) w1)
        else (Inl (Exit 5), emit (Log ERROR (''Group '' @ role @ '' cannot run '' @ c)) w1))"
  using mutate_not_earlier[OF assms(1)] assms
  by (simp add: check_user_rights_def bind_io_def log_def return_io_def getattr_user_role_def
      sys_exit_def is_mutate_def Let_def)

lemma run_command_denied_no_post:
  assumes "is_mutate c" and "user_role self = Some role" and "role \<notin> set Admin_roles"
  shows "emits {e. \<not> is_post e} (run_command self c)"
  unfolding run_command_def
  apply (rule emits_bind[OF check_connection_no_post])
  apply (rule emits_bind_fail)
   apply (simp add: check_user_rights_mutate[OF assms(1,2)] assms(3) Let_def)
  apply (rule check_user_rights_no_post)
  done

lemma bind_io_Inr: "m w = (Inr x, w1) \<Longrightarrow> bind_io m f w = f x w1"
  by (simp add: bind_io_def)

lemma bind_io_Inl: "m w = (Inl e, w1) \<Longrightarrow> bind_io m f w = (Inl e, w1)"
  by (simp add: bind_io_def)

lemmas io_defs =
  bind_io_def log_def return_io_def lift_def raise_def sys_exit_def socket_connect_ex_def
  socket_shutdown_def requests_post_def json_loads_def emit_def getattr_token_id_def
  getattr_user_role_def n_connect_def n_post_def

lemma py_int_7443: "py_int ''7443'' = Inr 7443"
  by (simp add: py_int_def is_digit_def)

text \<open>The probe, path by path: one connection attempt at most, whatever its outcome.\<close>

lemma check_connection_eq:
  "check_connection self w =
     (case py_int (port self) of
        Inl e \<Rightarrow> (Inl (Unhandled e), w)
      | Inr p \<Rightarrow>
         (let w1 = emit (Connect (IP self) p 2)
                     (emit (Log DEBUG (''Starting check access to API port '' @ IP self @ '':'' @ port self)) w)
          in case env_connect_ex w (n_connect w) of
               Inl e \<Rightarrow> (Inl (Unhandled e), w1)
             | Inr rc \<Rightarrow>
                 if env_shutdown_raises w (n_connect w) then (Inl (Unhandled OSError), w1)
                 else if rc \<noteq> 0
                   then (Inl (Exit 6), emit (Log ERROR (''API port '' @ port self @ '' cannot be reached for '' @ IP self)) w1)
                   else (Inr (), emit (Log DEBUG (''Completed check access to API port '' @ IP self @ '':'' @ port self)) w1)))"
  by (simp add: check_connection_def io_defs Let_def split: sum.splits)





subsection \<open>Claim C7: read commands are authorized for every role\<close>





subsection \<open>Claim C2: mutating commands need an administrator role\<close>

lemma run_command_denied_eq:
  assumes "is_mutate c" and "user_role self = Some role" and "role \<notin> set Admin_roles"
  shows "run_command self c w =
     (case check_connection self w of
        (Inl e, w1) \<Rightarrow> (Inl e, w1)
      | (Inr u, w1) \<Rightarrow> (Inl (Exit 5),
           emit (Log ERROR (''Group '' @ role @ '' cannot run '' @ c))
             (emit (Log DEBUG (''Checking user '' @ username self @ '' has appropiate role for command '' @ c)) w1)))"
  unfolding run_command_def
  by (simp add: bind_io_def check_user_rights_mutate[OF assms(1,2)] assms(3) Let_def split: prod.splits sum.splits)

text \<open>
  C2, as amended. For a command in the Mutate row (prefix \<^verbatim>\<open>add\<close>, \<^verbatim>\<open>ch\<close>, \<^verbatim>\<open>mk\<close>, \<^verbatim>\<open>rm\<close>,
  or exactly \<^verbatim>\<open>expandvdisksize\<close> or \<^verbatim>\<open>movevdisk\<close>) and a session with a role, the check
  returns \<^verbatim>\<open>True\<close> iff the role is \<^verbatim>\<open>Administrator\<close> or \<^verbatim>\<open>SecurityAdmin\<close>. For any other role
  the check ends the process with exit code 5, \<^verbatim>\<open>run_command\<close> fails, it sends no HTTP
  request, and its only network activity is the connectivity probe that runs before the
  check (at most one connection attempt); when that probe goes through, \<^verbatim>\<open>run_command\<close>
  ends with exit code 5. The claim's "zero network calls" does not hold, because of that
  probe (\<open>denied_command_still_probes\<close>).
\<close>

theorem mutate_commands_authorization:
  assumes "is_mutate command" and "user_role self = Some role"
  shows "(fst (check_user_rights self command w) = Inr True) = (role = ''Administrator'' \<or> role = ''SecurityAdmin'') \<and>
     (role \<noteq> ''Administrator'' \<and> role \<noteq> ''SecurityAdmin'' \<longrightarrow>
        fst (check_user_rights self command w) = Inl (Exit 5) \<and>
        isl (fst (run_command self command w)) \<and>
        filter is_post (emitted w (snd (run_command self command w))) = [] \<and>
        length (filter is_connect (emitted w (snd (run_command self command w)))) \<le> 1 \<and>
        (py_int (port self) = Inr p \<and> env_connect_ex w (n_connect w) = Inr 0 \<and>
         \<not> env_shutdown_raises w (n_connect w) \<longrightarrow> fst (run_command self command w) = Inl (Exit 5)))"
proof -
  have a: "(fst (check_user_rights self command w) = Inr True) = (role = ''Administrator'' \<or> role = ''SecurityAdmin'')"
    by (auto simp: check_user_rights_mutate[OF assms] Let_def Admin_roles_def)
  have b: "fst (check_user_rights self command w) = Inl (Exit 5) \<and>
        isl (fst (run_command self command w)) \<and>
        filter is_post (emitted w (snd (run_command self command w))) = [] \<and>
        length (filter is_connect (emitted w (snd (run_command self command w)))) \<le> 1 \<and>
        (py_int (port self) = Inr p \<and> env_connect_ex w (n_connect w) = Inr 0 \<and>
         \<not> env_shutdown_raises w (n_connect w) \<longrightarrow> fst (run_command self command w) = Inl (Exit 5))"
    if "role \<noteq> ''Administrator''" "role \<noteq> ''SecurityAdmin''"
  proof -
    from that have nr: "role \<notin> set Admin_roles" by (simp add: Admin_roles_def)
    show ?thesis
      unfolding run_command_denied_eq[OF assms nr] check_connection_eq
      by (simp add: check_user_rights_mutate[OF assms] nr Let_def emitted_def emit_def split: sum.splits)
  qed
  show ?thesis using a b by blast
qed

theorem mutate_commands_authorization_witness:
  "is_mutate ''mkvdisk'' \<and> user_role (client (Some ''Monitor'')) = Some ''Monitor'' \<and>
   ''Monitor'' \<noteq> ''Administrator'' \<and> ''Monitor'' \<noteq> ''SecurityAdmin'' \<and>
   py_int (port (client (Some ''Monitor''))) = Inr 7443 \<and>
   env_connect_ex reachable_world (n_connect reachable_world) = Inr 0 \<and>
   \<not> env_shutdown_raises reachable_world (n_connect reachable_world) \<and>
   (fst (check_user_rights (client (Some ''Monitor'')) ''mkvdisk'' reachable_world) = Inr True)
      = (''Monitor'' = ''Administrator'' \<or> ''Monitor'' = ''SecurityAdmin'') \<and>
   fst (check_user_rights (client (Some ''Monitor'')) ''mkvdisk'' reachable_world) = Inl (Exit 5) \<and>
   isl (fst (run_command (client (Some ''Monitor'')) ''mkvdisk'' reachable_world)) \<and>
   filter is_post (emitted reachable_world (snd (run_command (client (Some ''Monitor'')) ''mkvdisk'' reachable_world))) = [] \<and>
   length (filter is_connect (emitted reachable_world (snd (run_command (client (Some ''Monitor'')) ''mkvdisk'' reachable_world)))) \<le> 1 \<and>
   fst (run_command (client (Some ''Monitor'')) ''mkvdisk'' reachable_world) = Inl (Exit 5)"
proof -
  have h: "is_mutate ''mkvdisk''" "user_role (client (Some ''Monitor'')) = Some ''Monitor''"
    by (simp_all add: is_mutate_def startswith_def client_def)
  have p: "py_int (port (client (Some ''Monitor''))) = Inr 7443"
      "env_connect_ex reachable_world (n_connect reachable_world) = Inr 0"
      "\<not> env_shutdown_raises reachable_world (n_connect reachable_world)"
    by (simp_all add: client_def py_int_7443 reachable_world_def array_world_def)
  show ?thesis
    using mutate_commands_authorization[OF h, of reachable_world 7443] h p by simp
qed

text \<open>
  C2 as stated fails: a \<^verbatim>\<open>Monitor\<close> session asks for \<^verbatim>\<open>mkvdisk\<close> while the array is
  reachable. The run ends with exit code 5, after one network call: the TCP connection
  attempt of the probe.
\<close>

theorem denied_command_still_probes:
  "fst (run_command (client (Some ''Monitor'')) ''mkvdisk'' reachable_world) = Inl (Exit 5) \<and>
   filter is_network_call
     (emitted reachable_world (snd (run_command (client (Some ''Monitor'')) ''mkvdisk'' reachable_world)))
   = [Connect ''10.0.0.1'' 7443 2]"
  by (simp add: run_command_def check_connection_def check_user_rights_def client_def reachable_world_def array_world_def
      py_int_7443 io_defs emitted_def startswith_def is_network_call_def Admin_roles_def)

subsection \<open>Claim C4: the connectivity probe\<close>

text \<open>
  C4 fails on the code. The probe calls \<^verbatim>\<open>shutdown\<close> on the socket before it looks at the
  result of \<^verbatim>\<open>connect_ex\<close>. When the connection was refused the socket is not connected,
  \<^verbatim>\<open>shutdown\<close> raises \<^verbatim>\<open>OSError\<close>, and the lines that log the error and call
  \<^verbatim>\<open>sys.exit(6)\<close> are never reached: acquiring the token, running a command and the
  constructor all end with the unhandled exception. The trace holds the probe's first log
  record and the connection attempt only: no retry, no HTTP request, and no error record
  either.
\<close>

theorem refused_connection_raises:
  "get_token (client None) refusing_world =
     (Inl (Unhandled OSError),
      refusing_world \<lparr> trace := [Log DEBUG ''Starting check access to API port 10.0.0.1:7443'',
                                 Connect ''10.0.0.1'' 7443 2] \<rparr>) \<and>
   run_command (client (Some ''Monitor'')) ''lsvdisk'' refusing_world =
     (Inl (Unhandled OSError),
      refusing_world \<lparr> trace := [Log DEBUG ''Starting check access to API port 10.0.0.1:7443'',
                                 Connect ''10.0.0.1'' 7443 2] \<rparr>) \<and>
   fst (init ''10.0.0.1'' ''operator'' ''secret'' ''./output/'' False refusing_world) = Inl (Unhandled OSError)"
  by (simp add: get_token_def run_command_def init_def set_logger_up_def create_output_dir_def
      os_path_isdir_def datetime_now_def clock_def return_io_def
      check_connection_eq client_def refusing_world_def reachable_world_def array_world_def
      py_int_7443 bind_io_def emit_def n_connect_def Let_def)

text \<open>
  What the claim says does hold whenever \<^verbatim>\<open>shutdown\<close> does not raise (as for a connection
  attempt that timed out): one connection attempt, an error record, exit code 6, and no
  HTTP request, both before the token is acquired and before a command.
\<close>

lemma failed_probe_exits_6:
  assumes "py_int (port self) = Inr p" and "env_connect_ex w (n_connect w) = Inr rc" and "rc \<noteq> 0"
    and "\<not> env_shutdown_raises w (n_connect w)"
  shows "fst (get_token self w) = Inl (Exit 6) \<and> fst (run_command self c w) = Inl (Exit 6) \<and>
     emitted w (snd (get_token self w)) =
       [Log DEBUG (''Starting check access to API port '' @ IP self @ '':'' @ port self),
        Connect (IP self) p 2,
        Log ERROR (''API port '' @ port self @ '' cannot be reached for '' @ IP self)] \<and>
     emitted w (snd (run_command self c w)) = emitted w (snd (get_token self w))"
  using assms
  by (simp add: get_token_def run_command_def check_connection_eq bind_io_def Let_def emitted_def emit_def)


section \<open>The system summary\<close>

lemma getitem_str_has_key: "(\<exists>v. getitem_str obj k = Inr v) = has_key obj k"
proof (cases obj)
  case (JObj d)
  have "(k \<in> fst ` set d) = (\<exists>v. map_of d k = Some v)"
    by (simp add: dom_map_of_conv_image_fst[symmetric] domIff)
  then show ?thesis using JObj by (auto simp: getitem_str_def split: option.splits)
qed (simp_all add: getitem_str_def)

lemma field_Some: "(field obj k = Some v) = (getitem_str obj k = Inr v)"
  by (simp add: field_def split: sum.splits)

lemma field_None: "(field obj k = None) = (\<not> has_key obj k)"
  using getitem_str_has_key[of obj k] by (auto simp: field_def split: sum.splits)

lemma bind_exc_Inr: "bind_exc r f = Inr y \<longleftrightarrow> (\<exists>x. r = Inr x \<and> f x = Inr y)"
  by (cases r) (simp_all add: bind_exc_def)

lemma read_fields_Inr:
  "read_fields obj cols = Inr d \<longleftrightarrow>
     (\<forall>cf \<in> set cols. has_key obj (snd cf)) \<and> d = map (\<lambda>cf. (fst cf, the (field obj (snd cf)))) cols"
proof (induction cols arbitrary: d)
  case Nil
  then show ?case by auto
next
  case (Cons cf cols)
  have "(\<exists>v. getitem_str obj (snd cf) = Inr v \<and> P v) = (has_key obj (snd cf) \<and> P (the (field obj (snd cf))))" for P
    using getitem_str_has_key[of obj "snd cf"] by (auto simp: field_def)
  then show ?case
    by (auto simp: bind_exc_Inr Cons.IH)
qed

lemma add_str_Inr: "add_str x s = Inr y \<longleftrightarrow> (\<exists>n. x = JStr n \<and> y = n @ s)"
  by (cases x) (auto simp: add_str_def)

lemma add_tiers_Cons:
  "add_tiers (t # tiers) row = Inr r \<longleftrightarrow> tier_ok t \<and> add_tiers tiers (put_tier t row) = Inr r"
proof (cases "tier_ok t")
  case True
  then obtain n c f where v: "getitem_str t ''tier'' = Inr (JStr n)"
     "getitem_str t ''tier_capacity'' = Inr c" "getitem_str t ''tier_free_capacity'' = Inr f"
    unfolding tier_ok_def field_Some using getitem_str_has_key by blast
  then have "put_tier t row = AList.update (n @ ''_free'') f (AList.update (n @ ''_total'') c row)"
    by (simp add: put_tier_def tier_name_def field_def)
  then show ?thesis using True v by (simp add: bind_exc_def add_str_def)
next
  case False
  have "add_tiers (t # tiers) row \<noteq> Inr r"
  proof
    assume "add_tiers (t # tiers) row = Inr r"
    then obtain n c f where "getitem_str t ''tier'' = Inr (JStr n)"
     "getitem_str t ''tier_capacity'' = Inr c" "getitem_str t ''tier_free_capacity'' = Inr f"
      by (auto simp: bind_exc_Inr add_str_Inr Let_def)
    then have "tier_ok t" unfolding tier_ok_def field_Some using getitem_str_has_key by blast
    with False show False by simp
  qed
  then show ?thesis using False by simp
qed

lemma add_tiers_Inr:
  "add_tiers tiers row = Inr r \<longleftrightarrow> (\<forall>t \<in> set tiers. tier_ok t) \<and> r = fold put_tier tiers row"
proof (induction tiers arbitrary: row)
  case Nil
  then show ?case by auto
next
  case (Cons t tiers)
  show ?case unfolding add_tiers_Cons Cons.IH by auto
qed



lemma total_neq_free [simp]: "a @ ''_total'' \<noteq> b @ ''_free''" "b @ ''_free'' \<noteq> a @ ''_total''"
proof -
  show "a @ ''_total'' \<noteq> b @ ''_free''"
  proof
    assume "a @ ''_total'' = b @ ''_free''"
    then have "last (a @ ''_total'') = last (b @ ''_free'')" by simp
    then show False by simp
  qed
  then show "b @ ''_free'' \<noteq> a @ ''_total''" by (rule not_sym)
qed


lemma distinct_tier_keys:
  "distinct (map tier_name tiers) \<Longrightarrow> distinct (map fst (concat (map tier_columns tiers)))"
proof (induction tiers)
  case Nil
  then show ?case by simp
next
  case (Cons t tiers)
  have "tier_name t @ s \<notin> fst ` set (concat (map tier_columns tiers))" if "s = ''_total'' \<or> s = ''_free''" for s
  proof
    assume "tier_name t @ s \<in> fst ` set (concat (map tier_columns tiers))"
    then obtain u where "u \<in> set tiers" "tier_name t @ s = tier_name u @ ''_total'' \<or> tier_name t @ s = tier_name u @ ''_free''"
      by (auto simp: tier_columns_def)
    with that Cons.prems show False by auto
  qed
  with Cons show ?case by (simp add: tier_columns_def)
qed


lemma distinct_lssystem_columns: "distinct (map fst lssystem_columns)"
  by (simp add: lssystem_columns_def)


lemma format_lssystem_eq:
  "format_lssystem_to_excel self w =
     (case run_command self ''lssystem'' w of
        (Inl e, w') \<Rightarrow> (Inl e, w')
      | (Inr lssystem, w') \<Rightarrow>
          (case bind_exc (read_fields lssystem lssystem_columns) (\<lambda>row.
                bind_exc (getitem_str lssystem ''tiers'') (\<lambda>ts.
                bind_exc (py_iter ts) (\<lambda>tiers. add_tiers tiers row))) of
             Inl e \<Rightarrow> (Inl (Unhandled e), w')
           | Inr row \<Rightarrow> (Inr (JArr [JObj row]), w')))"
  by (simp add: format_lssystem_to_excel_def bind_io_def lift_def raise_def return_io_def bind_exc_def
      split: prod.splits sum.splits)

lemma run_command_ok:
  assumes "startswith c ''ls''" and "py_int (port self) = Inr p" and "token_id self = Some t"
    and "env_connect_ex w (n_connect w) = Inr 0" and "\<not> env_shutdown_raises w (n_connect w)"
    and "env_post w (n_post w) (base_url self @ c) [(''X-Auth-Token'', t)] = Inr (Response 200 (Some j))"
  shows "run_command self c w =
     (Inr j, w\<lparr>trace := trace w @
        [Log DEBUG (''Starting check access to API port '' @ IP self @ '':'' @ port self),
         Connect (IP self) p 2,
         Log DEBUG (''Completed check access to API port '' @ IP self @ '':'' @ port self),
         Log DEBUG (''Checking user '' @ username self @ '' has appropiate role for command '' @ c),
         Log DEBUG (''All groups can run '' @ c),
         Log DEBUG (''Going to send command run '' @ c @ '' to API''),
         Post (base_url self @ c) [(''X-Auth-Token'', t)],
         Log DEBUG (''Got HTTP 200 on command run '' @ c @ '' to API'')]\<rparr>)"
  using assms
  by (simp add: run_command_def check_connection_eq check_user_rights_def io_defs Let_def)

subsection \<open>Claim C5: one row, the fixed columns, two columns per tier\<close>




subsection \<open>Claim C10: a missing key is an unhandled exception\<close>

text \<open>
  C10. Given the decoded answer to \<^verbatim>\<open>lssystem\<close>: if it lacks one of the 24 fields the
  transform reads, or \<^verbatim>\<open>tiers\<close>, or if one of the tier entries the loop runs over lacks
  \<^verbatim>\<open>tier\<close>, \<^verbatim>\<open>tier_capacity\<close> or \<^verbatim>\<open>tier_free_capacity\<close>, then the transform ends with an
  exception that nothing handles, not with one of the exit codes.
\<close>

theorem lssystem_missing_key_raises:
  assumes resp: "fst (run_command self ''lssystem'' w) = Inr lssystem"
    and absent: "(\<exists>cf \<in> set lssystem_columns. \<not> has_key lssystem (snd cf)) \<or>
                 \<not> has_key lssystem ''tiers'' \<or>
                 (\<exists>tiers. bind_exc (getitem_str lssystem ''tiers'') py_iter = Inr tiers \<and>
                    (\<exists>t \<in> set tiers. \<not> has_key t ''tier'' \<or> \<not> has_key t ''tier_capacity'' \<or>
                                       \<not> has_key t ''tier_free_capacity''))"
  shows "\<exists>e. fst (format_lssystem_to_excel self w) = Inl (Unhandled e)"
proof -
  obtain w' where rc: "run_command self ''lssystem'' w = (Inr lssystem, w')"
    using resp by (cases "run_command self ''lssystem'' w") auto
  let ?t = "bind_exc (read_fields lssystem lssystem_columns) (\<lambda>row.
                bind_exc (getitem_str lssystem ''tiers'') (\<lambda>ts.
                bind_exc (py_iter ts) (\<lambda>tiers. add_tiers tiers row)))"
  have "?t \<noteq> Inr row" for row
  proof
    assume "?t = Inr row"
    then obtain row0 ts tiers where a: "read_fields lssystem lssystem_columns = Inr row0"
      "getitem_str lssystem ''tiers'' = Inr ts" "py_iter ts = Inr tiers" "add_tiers tiers row0 = Inr row"
      by (auto simp: bind_exc_Inr)
    from a(1) have 1: "\<forall>cf \<in> set lssystem_columns. has_key lssystem (snd cf)" by (simp add: read_fields_Inr)
    from a(2) have 2: "has_key lssystem ''tiers''" using getitem_str_has_key by blast
    from a(4) have "\<forall>t \<in> set tiers. tier_ok t" by (simp add: add_tiers_Inr)
    then have 3: "\<forall>t \<in> set tiers. has_key t ''tier'' \<and> has_key t ''tier_capacity'' \<and> has_key t ''tier_free_capacity''"
      unfolding tier_ok_def by (metis field_None option.distinct(1))
    have "bind_exc (getitem_str lssystem ''tiers'') py_iter = Inr tiers" using a(2,3) by (simp add: bind_exc_def)
    with absent 1 2 3 show False by auto
  qed
  then obtain e where "?t = Inl e" by (cases ?t) auto
  then show ?thesis unfolding format_lssystem_eq rc by simp
qed

theorem lssystem_missing_key_raises_witness:
  "\<not> has_key (JObj (butlast (butlast (case lssystem_answer [] of JObj d \<Rightarrow> d | _ \<Rightarrow> [])))) ''cache_prefetch'' \<and>
   fst (format_lssystem_to_excel (client (Some ''Monitor'')) short_answer_world) = Inl (Unhandled KeyError)"
proof -
  let ?a = "JObj (butlast (butlast (case lssystem_answer [] of JObj d \<Rightarrow> d | _ \<Rightarrow> [])))"
  have resp1: "fst (run_command (client (Some ''Monitor'')) ''lssystem'' short_answer_world) = Inr ?a"
    by (subst run_command_ok[where p = 7443 and t = "JStr ''t0k3n''" and j = ?a])
       (simp_all add: startswith_def client_def py_int_7443 short_answer_world_def array_world_def answer_def
          n_connect_def n_post_def)
  then obtain w' where resp: "run_command (client (Some ''Monitor'')) ''lssystem'' short_answer_world = (Inr ?a, w')"
    by (cases "run_command (client (Some ''Monitor'')) ''lssystem'' short_answer_world") auto
  have absent: "\<not> has_key ?a ''cache_prefetch''"
    by (simp add: lssystem_answer_def)
  have "(''Cache prefetch'', ''cache_prefetch'') \<in> set lssystem_columns"
    by (simp add: lssystem_columns_def)
  with absent have "\<exists>cf \<in> set lssystem_columns. \<not> has_key ?a (snd cf)" by force
  with lssystem_missing_key_raises[of "client (Some ''Monitor'')" short_answer_world ?a] resp1
  obtain e where e: "fst (format_lssystem_to_excel (client (Some ''Monitor'')) short_answer_world) = Inl (Unhandled e)"
    by auto
  have "fst (format_lssystem_to_excel (client (Some ''Monitor'')) short_answer_world) = Inl (Unhandled KeyError)"
    unfolding format_lssystem_eq resp
    by (simp add: lssystem_columns_def lssystem_answer_def getitem_str_def bind_exc_def)
  with absent e show ?thesis by simp
qed

section \<open>The report pipeline\<close>

subsection \<open>What the computations leave alone\<close>

lemma untraced_emit: "untraced I \<Longrightarrow> I w \<Longrightarrow> I (emit e w)"
  by (simp add: untraced_def emit_def)

lemma untraced_files: "untraced (\<lambda>w. files w = F)"
  by (simp add: untraced_def)

lemma preserves_return: "preserves I (return_io x)"
  by (simp add: preserves_def return_io_def)

lemma preserves_raise: "preserves I (raise e)"
  by (simp add: preserves_def raise_def)

lemma preserves_sys_exit: "preserves I (sys_exit n)"
  by (simp add: preserves_def sys_exit_def)

lemma preserves_lift: "preserves I (lift r)"
  by (cases r) (simp_all add: lift_def preserves_raise preserves_return)

lemma preserves_bind: "preserves I m \<Longrightarrow> (\<And>x. preserves I (f x)) \<Longrightarrow> preserves I (bind_io m f)"
  unfolding preserves_def bind_io_def by (auto split: prod.splits sum.splits)

lemma preserves_if: "(c \<Longrightarrow> preserves I a) \<Longrightarrow> (\<not> c \<Longrightarrow> preserves I b) \<Longrightarrow> preserves I (if c then a else b)"
  by simp

lemma preserves_log: "untraced I \<Longrightarrow> preserves I (log l s)"
  by (simp add: preserves_def log_def untraced_emit)

lemma preserves_getattr_token: "preserves I (getattr_token_id self)"
  by (simp add: getattr_token_id_def preserves_raise preserves_return split: option.splits)

lemma preserves_getattr_role: "preserves I (getattr_user_role self)"
  by (simp add: getattr_user_role_def preserves_raise preserves_return split: option.splits)

lemma preserves_json_loads: "preserves I (json_loads b)"
  by (simp add: json_loads_def preserves_raise preserves_return split: option.splits)

lemma preserves_shutdown: "preserves I socket_shutdown"
  by (simp add: preserves_def socket_shutdown_def)

lemma preserves_connect: "untraced I \<Longrightarrow> preserves I (socket_connect_ex h p t)"
  by (auto simp: preserves_def socket_connect_ex_def untraced_emit split: sum.splits)

lemma preserves_post: "untraced I \<Longrightarrow> preserves I (requests_post u h)"
  by (auto simp: preserves_def requests_post_def untraced_emit split: sum.splits)

lemma preserves_DataFrame: "preserves I (DataFrame_from_dict d)"
  by (auto simp: preserves_def DataFrame_from_dict_def Let_def split: sum.splits option.splits)

lemma preserves_avoid: "preserves I (avoid_duplicate_name ns v)"
  by (auto simp: preserves_def avoid_duplicate_name_def)

lemma preserves_load: "untraced I \<Longrightarrow> preserves I (load_workbook p)"
  by (auto simp: preserves_def load_workbook_def untraced_emit split: option.splits)

lemmas preserves_intros =
  preserves_return preserves_raise preserves_sys_exit preserves_lift preserves_bind preserves_if
  preserves_log preserves_getattr_token preserves_getattr_role preserves_json_loads
  preserves_shutdown preserves_connect preserves_post preserves_DataFrame preserves_avoid
  preserves_load

lemma preserves_check_connection: "untraced I \<Longrightarrow> preserves I (check_connection self)"
  unfolding check_connection_def by (intro preserves_intros)

lemma preserves_check_user_rights: "untraced I \<Longrightarrow> preserves I (check_user_rights self c)"
  unfolding check_user_rights_def by (intro preserves_intros)

lemma preserves_run_command: "untraced I \<Longrightarrow> preserves I (run_command self c)"
  unfolding run_command_def Let_def
  by (intro preserves_intros preserves_check_connection preserves_check_user_rights)

lemma preserves_format_lssystem: "untraced I \<Longrightarrow> preserves I (format_lssystem_to_excel self)"
  unfolding format_lssystem_to_excel_def by (intro preserves_intros preserves_run_command)

lemma preserves_import_data: "untraced I \<Longrightarrow> preserves I (import_data c d ws)"
  unfolding import_data_def by (intro preserves_intros)

lemma preserves_format_sheet: "untraced I \<Longrightarrow> preserves I (format_sheet self ws c)"
  unfolding format_sheet_def Let_def by (intro preserves_intros)

lemma preserves_set_title: "preserves I (set_title wb i v)"
  unfolding set_title_def by (intro preserves_intros)

lemma preserves_create_sheet: "preserves I (create_sheet wb v)"
  unfolding create_sheet_def Let_def by (intro preserves_intros)

lemma preserves_open_sheet: "untraced I \<Longrightarrow> preserves I (open_sheet self c)"
  unfolding open_sheet_def Let_def
  by (intro preserves_intros preserves_set_title preserves_create_sheet)

lemma bind_io_assoc: "bind_io (bind_io m f) g = bind_io m (\<lambda>x. bind_io (f x) g)"
  by (rule ext) (simp add: bind_io_def split: prod.splits sum.splits)

lemma parse_command_to_excel_eq:
  "parse_command_to_excel self c =
     bind_io (open_sheet self c) (\<lambda>opened.
     bind_io (build_sheet (snd (snd opened)) c (fst opened ! fst (snd opened))) (\<lambda>sheet.
     bind_io (save_excel (snd (snd opened)) ((fst opened)[fst (snd opened) := sheet]) c) (\<lambda>_.
     return_io (snd (snd opened)))))"
  by (simp add: parse_command_to_excel_def build_sheet_def bind_io_assoc Let_def)

lemma preserves_build_sheet: "untraced I \<Longrightarrow> preserves I (build_sheet self c ws)"
  unfolding build_sheet_def
  by (intro preserves_intros preserves_format_lssystem preserves_run_command preserves_import_data
      preserves_format_sheet)

lemma keeps_filesD:
  assumes "\<And>I. untraced I \<Longrightarrow> preserves I m" and "m w = (r, w')"
  shows "files w' = files w"
  using assms(1)[OF untraced_files[of "files w"]] assms(2) unfolding preserves_def by (metis snd_conv)

subsection \<open>Sheet titles\<close>

lemma ws_append_title: "ws_append r ws = Inr ws' \<Longrightarrow> title ws' = title ws"
  by (auto simp: ws_append_def split: sum.splits)

lemma append_rows_title: "append_rows rs ws = Inr ws' \<Longrightarrow> title ws' = title ws"
proof (induction rs arbitrary: ws)
  case Nil then show ?case by simp
next
  case (Cons r rs)
  then show ?case by (auto simp: bind_exc_def split: sum.splits dest: ws_append_title)
qed

lemma fst_bind_io_Inr:
  "fst (bind_io m f w) = Inr y \<longleftrightarrow> (\<exists>x w'. m w = (Inr x, w') \<and> fst (f x w') = Inr y)"
  by (cases "m w") (auto simp: bind_io_def split: sum.splits)

lemma log_eq: "log l s w = (Inr x, w') \<longleftrightarrow> w' = emit (Log l s) w"
  by (auto simp: log_def)

lemma lift_eq: "lift r w = (Inr x, w') \<longleftrightarrow> r = Inr x \<and> w' = w"
  by (cases r) (auto simp: lift_def raise_def return_io_def)

lemma fst_return_io: "fst (return_io x w) = Inr y \<longleftrightarrow> x = y"
  by (simp add: return_io_def)

lemma import_data_title: "fst (import_data c d ws w) = Inr s \<Longrightarrow> title s = title ws"
  by (auto simp: import_data_def fst_bind_io_Inr log_eq lift_eq fst_return_io dest: append_rows_title)

lemma ws_cell_title [simp]: "title (ws_cell r c ws) = title ws"
  by (simp add: ws_cell_def split: option.splits)

lemma update_cell_title [simp]: "title (update_cell f r c ws) = title ws"
  by (simp add: update_cell_def Let_def)

lemma fold_title: "(\<And>x ws. title (f x ws) = title ws) \<Longrightarrow> title (fold f xs ws) = title ws"
  by (induction xs arbitrary: ws) simp_all

lemma fix_width_loop_title: "fix_width_loop cs dh ws = Inr ws' \<Longrightarrow> title ws' = title ws"
  by (induction cs dh ws rule: fix_width_loop.induct) (auto simp: Let_def split: if_splits)

lemma set_header_title [simp]: "title (set_header ws) = title ws"
  by (simp add: set_header_def fold_title set_fill_def set_font_def)

lemma center_all_title [simp]: "title (center_all ws) = title ws"
  by (simp add: center_all_def fold_title set_alignment_def)

lemma fill_rows_title [simp]: "title (fill_rows v rs ws) = title ws"
  by (simp add: fill_rows_def fold_title set_fill_def)

lemma alternate_colors_title [simp]: "title (alternate_colors ws) = title ws"
  by (simp add: alternate_colors_def Let_def)

lemma format_sheet_title: "fst (format_sheet self ws c w) = Inr s \<Longrightarrow> title s = title ws"
  by (auto simp: format_sheet_def Let_def fst_bind_io_Inr log_eq lift_eq fst_return_io fix_width_def
      dest: fix_width_loop_title)

lemma build_sheet_title: "fst (build_sheet self c ws w) = Inr s \<Longrightarrow> title s = title ws"
proof -
  assume a: "fst (build_sheet self c ws w) = Inr s"
  then obtain d w1 s1 w2 where "fst (import_data c d ws w1) = Inr s1" "fst (format_sheet self s1 c w2) = Inr s"
    unfolding build_sheet_def fst_bind_io_Inr
    by (metis fst_conv)
  then show ?thesis using import_data_title format_sheet_title by metis
qed


subsection \<open>One command, then the loop\<close>

lemma save_excel_eq:
  "save_excel self wb c w =
     (let w1 = emit (SaveWorkbook (master_file self))
                 (emit (Log DEBUG (''Starting saving '' @ c @ '' information into Excel file'')) w)
      in if env_save_raises w (n_save w)
         then (Inl (Exit 2), emit (Log ERROR (''Cannot write '' @ master_file self)) w1)
         else (Inr (), emit (Log INFO (''Completed saving '' @ c @ '' information into Excel file''))
                        (w1\<lparr>files := (files w)(master_file self \<mapsto> wb)\<rparr>)))"
  by (simp add: save_excel_def wb_save_def bind_io_def log_def emit_def sys_exit_def n_save_def Let_def)

lemma save_excel_files:
  "save_excel self wb c w = (r, w') \<Longrightarrow>
     (r = Inr () \<and> files w' = (files w)(master_file self \<mapsto> wb)) \<or> (r = Inl (Exit 2) \<and> files w' = files w)"
  by (auto simp: save_excel_eq Let_def emit_def split: if_splits)

lemma progress_sheet_names: "progress self w finished \<Longrightarrow> sheet_names self w = finished"
  by (auto simp: progress_def sheet_names_def split: if_splits)

lemma fresh_title_not_in: "fresh_title names c \<Longrightarrow> c \<notin> set names"
  by (auto simp: fresh_title_def list_ex_iff)

lemma sheet_index_append: "c \<notin> title ` set wb \<Longrightarrow> sheet_index (wb @ [empty_sheet c]) c = Inr (length wb)"
  by (induction wb) (auto simp: empty_sheet_def)

lemma open_sheet_first:
  assumes "first_run self" and "fresh_title [''Sheet''] c"
  shows "open_sheet self c w = (Inr ([empty_sheet c], 0, self\<lparr>first_run := False\<rparr>), w)"
proof -
  from assms(2) have "c \<noteq> ''Sheet''" using fresh_title_not_in by fastforce
  with assms show ?thesis
    by (simp add: open_sheet_def Let_def set_title_def Workbook_def fresh_title_def empty_sheet_def
        avoid_duplicate_name_def bind_io_def return_io_def)
qed

lemma open_sheet_next:
  assumes "\<not> first_run self" and "files w (master_file self) = Some wb" and "fresh_title (map title wb) c"
  shows "open_sheet self c w =
     (if env_load_raises w (n_load w) then (Inl (Unhandled OSError), emit (LoadWorkbook (master_file self)) w)
      else (Inr (wb @ [empty_sheet c], length wb, self), emit (LoadWorkbook (master_file self)) w))"
proof -
  from assms(3) have "c \<notin> title ` set wb" using fresh_title_not_in by fastforce
  then have "sheet_index (wb @ [empty_sheet c]) c = Inr (length wb)" by (rule sheet_index_append)
  with assms show ?thesis
    by (simp add: open_sheet_def load_workbook_def create_sheet_def Let_def fresh_title_def
        avoid_duplicate_name_def bind_io_def return_io_def lift_def emit_def)
qed

lemma parse_step:
  assumes inv: "progress self w finished"
    and fresh: "fresh_title (if finished = [] then [''Sheet''] else finished) c"
    and run: "parse_command_to_excel self c w = (r, w')"
  shows "case r of Inl e \<Rightarrow> files w' = files w
         | Inr self' \<Rightarrow> progress self' w' (finished @ [c]) \<and> master_file self' = master_file self"
proof -
  obtain r0 w0 where o: "open_sheet self c w = (r0, w0)" by (cases "open_sheet self c w")
  have f0: "files w0 = files w" using keeps_filesD[OF preserves_open_sheet o] .
  show ?thesis
  proof (cases r0)
    case (Inl e)
    with o run have "r = Inl e" "w' = w0" by (simp_all add: parse_command_to_excel_eq bind_io_Inl)
    with f0 show ?thesis by simp
  next
    case (Inr opened)
    obtain wb i self1 where op: "opened = (wb, i, self1)" by (cases opened)
    have shape: "map title wb = finished @ [c] \<and> i < length wb \<and> title (wb ! i) = c \<and>
                 master_file self1 = master_file self \<and> \<not> first_run self1"
    proof (cases "finished = []")
      case True
      with inv fresh have "first_run self" "fresh_title [''Sheet''] c" by (simp_all add: progress_def)
      from open_sheet_first[OF this, of w] o Inr op True show ?thesis by (simp add: empty_sheet_def)
    next
      case False
      with inv obtain wb0 where wb0: "\<not> first_run self" "files w (master_file self) = Some wb0" "map title wb0 = finished"
        by (auto simp: progress_def)
      with fresh False have "fresh_title (map title wb0) c" by simp
      from open_sheet_next[OF wb0(1,2) this] o Inr op wb0 show ?thesis
        by (auto simp: empty_sheet_def nth_append split: if_splits)
    qed
    obtain r1 w1 where b: "build_sheet self1 c (wb ! i) w0 = (r1, w1)" by (cases "build_sheet self1 c (wb ! i) w0")
    have f1: "files w1 = files w0" using keeps_filesD[OF preserves_build_sheet b] .
    show ?thesis
    proof (cases r1)
      case (Inl e)
      with o Inr op b run have "r = Inl e" "w' = w1"
        by (simp_all add: parse_command_to_excel_eq bind_io_Inr bind_io_Inl)
      with f0 f1 show ?thesis by simp
    next
      case sheet: (Inr sheet)
      have t: "title sheet = c" using build_sheet_title[of self1 c "wb ! i" w0 sheet] b sheet shape by simp
      obtain r2 w2 where s: "save_excel self1 (wb[i := sheet]) c w1 = (r2, w2)"
        by (cases "save_excel self1 (wb[i := sheet]) c w1")
      have "(map title wb)[i := (map title wb) ! i] = map title wb" by (rule list_update_id)
      moreover from shape have "i < length wb" by simp
      then have "(map title wb) ! i = title (wb ! i)" by (rule nth_map)
      ultimately have "map title (wb[i := sheet]) = map title wb"
        using shape t by (simp only: map_update)
      with shape have names: "map title (wb[i := sheet]) = finished @ [c]" by simp
      from save_excel_files[OF s] show ?thesis
      proof
        assume a: "r2 = Inr () \<and> files w2 = (files w1)(master_file self1 \<mapsto> wb[i := sheet])"
        with o Inr op b sheet s run have "r = Inr self1" "w' = w2"
          by (simp_all add: parse_command_to_excel_eq bind_io_Inr return_io_def)
        with a names shape show ?thesis by (simp add: progress_def)
      next
        assume a: "r2 = Inl (Exit 2) \<and> files w2 = files w1"
        with o Inr op b sheet s run have "r = Inl (Exit 2)" "w' = w2"
          by (simp_all add: parse_command_to_excel_eq bind_io_Inr bind_io_Inl)
        with a f0 f1 show ?thesis by simp
      qed
    qed
  qed
qed


lemma for_commands_append:
  "for_commands (xs @ ys) self = bind_io (for_commands xs self) (for_commands ys)"
proof (induction xs arbitrary: self)
  case Nil
  show ?case by (rule ext) (simp add: bind_io_def return_io_def)
next
  case (Cons x xs)
  have "for_commands (xs @ ys) = (\<lambda>s. bind_io (for_commands xs s) (for_commands ys))"
    by (rule ext) (rule Cons.IH)
  then show ?case by (simp add: bind_io_assoc)
qed

lemma for_commands_progress:
  assumes "progress self w finished" and "fresh_titles finished cmds"
    and "for_commands cmds self w = (r, w')"
  shows "case r of
           Inr self' \<Rightarrow> progress self' w' (finished @ cmds) \<and> master_file self' = master_file self
         | Inl e \<Rightarrow> (\<exists>k self'' w''. k < length cmds \<and>
                       for_commands (take k cmds) self w = (Inr self'', w'') \<and>
                       fst (parse_command_to_excel self'' (cmds ! k) w'') = Inl e \<and>
                       files w' = files w'' \<and> progress self'' w'' (finished @ take k cmds) \<and>
                       master_file self'' = master_file self)"
  using assms
proof (induction cmds arbitrary: self w finished)
  case Nil
  then show ?case by (auto simp: return_io_def)
next
  case (Cons c cmds)
  obtain r1 w1 where p: "parse_command_to_excel self c w = (r1, w1)" by (cases "parse_command_to_excel self c w")
  from Cons.prems(2) have fresh: "fresh_title (if finished = [] then [''Sheet''] else finished) c"
    and rest: "fresh_titles (finished @ [c]) cmds" by simp_all
  note step = parse_step[OF Cons.prems(1) fresh p]
  show ?case
  proof (cases r1)
    case (Inl e)
    with p Cons.prems(3) have "r = Inl e" "w' = w1" by (simp_all add: bind_io_Inl)
    moreover have "for_commands (take 0 (c # cmds)) self w = (Inr self, w)" by (simp add: return_io_def)
    ultimately show ?thesis using step Inl p Cons.prems(1)
      by (auto intro!: exI[of _ 0])
  next
    case (Inr self1)
    with step have pr: "progress self1 w1 (finished @ [c])" and mf: "master_file self1 = master_file self" by simp_all
    from p Inr Cons.prems(3) have run: "for_commands cmds self1 w1 = (r, w')" by (simp add: bind_io_Inr)
    note ih = Cons.IH[OF pr rest run]
    show ?thesis
    proof (cases r)
      case r: (Inr self')
      with ih mf show ?thesis by simp
    next
      case r: (Inl e)
      with ih obtain k self'' w'' where k: "k < length cmds"
         "for_commands (take k cmds) self1 w1 = (Inr self'', w'')"
         "fst (parse_command_to_excel self'' (cmds ! k) w'') = Inl e"
         "files w' = files w''" "progress self'' w'' ((finished @ [c]) @ take k cmds)"
         "master_file self'' = master_file self1" by auto
      have "for_commands (take (Suc k) (c # cmds)) self w = (Inr self'', w'')"
        using p Inr k(2) by (simp add: bind_io_Inr)
      with k mf r show ?thesis
        by (auto intro!: exI[of _ "Suc k"])
    qed
  qed
qed

lemma fresh_titles_take: "fresh_titles names cmds \<Longrightarrow> fresh_titles names (take n cmds)"
proof (induction cmds arbitrary: names n)
  case Nil
  then show ?case by simp
next
  case (Cons c cmds)
  then show ?case by (cases n) auto
qed

lemma lower_Sheet: "map lower_char ''Sheet'' = ''sheet''"
  by (simp add: lower_char_def)

lemma fresh_titles_lower:
  assumes "\<forall>c \<in> set (names @ cmds). map lower_char c = c" and "distinct (names @ cmds)"
    and "\<forall>c \<in> set cmds. c \<noteq> [] \<and> \<not> list_ex invalid_title_char c \<and> c \<noteq> ''sheet''"
  shows "fresh_titles names cmds"
  using assms
proof (induction cmds arbitrary: names)
  case Nil
  then show ?case by simp
next
  case (Cons c cmds)
  define S where "S = ''Sheet''"
  have lS: "map lower_char S = ''sheet''" unfolding S_def by (rule lower_Sheet)
  have lc: "map lower_char c = c" using Cons.prems(1) by simp
  have c: "c \<noteq> []" "\<not> list_ex invalid_title_char c" "c \<noteq> ''sheet''" using Cons.prems(3) by simp_all
  have "\<not> list_ex (\<lambda>n. map lower_char n = map lower_char c) (if names = [] then [S] else names)"
  proof (cases "names = []")
    case True
    then show ?thesis using lS lc c(3) by simp
  next
    case False
    have "map lower_char n \<noteq> map lower_char c" if "n \<in> set names" for n
    proof -
      from that Cons.prems(1) have "map lower_char n = n" by simp
      moreover from that Cons.prems(2) have "n \<noteq> c" by auto
      ultimately show ?thesis using lc by simp
    qed
    with False show ?thesis by (simp add: list_ex_iff)
  qed
  then have "fresh_title (if names = [] then [''Sheet''] else names) c"
    using c unfolding fresh_title_def S_def by blast
  moreover have "fresh_titles (names @ [c]) cmds"
    using Cons.prems by (intro Cons.IH) auto
  ultimately show ?case by simp
qed

lemma report_commands_lower: "\<forall>c \<in> set report_commands. map lower_char c = c"
  by (simp add: report_commands_def lower_char_def)

lemma report_commands_distinct: "distinct report_commands"
  by (simp add: report_commands_def)

lemma report_commands_valid:
  "\<forall>c \<in> set report_commands. c \<noteq> [] \<and> \<not> list_ex invalid_title_char c \<and> c \<noteq> ''sheet''"
  by (simp add: report_commands_def invalid_title_char_def)

lemma report_commands_ls: "\<forall>c \<in> set report_commands. startswith c ''ls''"
  by (simp add: report_commands_def startswith_def)

lemma fresh_report_commands: "fresh_titles [] report_commands"
  using report_commands_lower report_commands_distinct report_commands_valid
  by (intro fresh_titles_lower) simp_all


lemma bind_io_eq_Inr:
  "bind_io m f w = (Inr y, w') \<longleftrightarrow> (\<exists>x w1. m w = (Inr x, w1) \<and> f x w1 = (Inr y, w'))"
  by (cases "m w") (auto simp: bind_io_def split: sum.splits)

lemma emits_traceD: "emits A m \<Longrightarrow> m w = (r, w') \<Longrightarrow> \<exists>evs. trace w' = trace w @ evs \<and> set evs \<subseteq> A"
  unfolding emits_def by (metis snd_conv)

lemma filter_no_post: "set evs \<subseteq> {e. \<not> is_post e} \<Longrightarrow> filter is_post evs = []"
  by (induction evs) auto

lemma run_command_Inr:
  assumes "run_command self c w = (Inr j, w')"
  shows "\<exists>t evs. token_id self = Some t \<and> trace w' = trace w @ evs \<and>
           filter is_post evs = [Post (base_url self @ c) [(''X-Auth-Token'', t)]]"
proof -
  from assms obtain u w1 where cc: "check_connection self w = (Inr u, w1)"
    and r1: "bind_io (check_user_rights self c) (\<lambda>has_right.
     bind_io (getattr_token_id self) (\<lambda>token.
     (let command_headers = [(''X-Auth-Token'', token)];
          command_url = base_url self @ c
      in
     bind_io (log DEBUG (''Going to send command run '' @ c @ '' to API'')) (\<lambda>_.
     bind_io (requests_post command_url command_headers) (\<lambda>cmd_r.
     if status_code cmd_r = 200 then
       bind_io (json_loads (body_json cmd_r)) (\<lambda>cmd_d.
       bind_io (log DEBUG (''Got HTTP 200 on command run '' @ c @ '' to API'')) (\<lambda>_.
       return_io cmd_d))
     else if has_right then
       bind_io (log ERROR (''Cannot run '' @ c @ '' to API'')) (\<lambda>_.
       sys_exit 3)
     else
       bind_io (log ERROR (''Cannot run '' @ c @ '' to API, likely is not a correct command'')) (\<lambda>_.
       sys_exit 3)))))) w1 = (Inr j, w')"
    unfolding run_command_def by (subst (asm) bind_io_eq_Inr) blast
  from r1 obtain hr w2 where cur: "check_user_rights self c w1 = (Inr hr, w2)"
    and r2: "bind_io (getattr_token_id self) (\<lambda>token.
     (let command_headers = [(''X-Auth-Token'', token)];
          command_url = base_url self @ c
      in
     bind_io (log DEBUG (''Going to send command run '' @ c @ '' to API'')) (\<lambda>_.
     bind_io (requests_post command_url command_headers) (\<lambda>cmd_r.
     if status_code cmd_r = 200 then
       bind_io (json_loads (body_json cmd_r)) (\<lambda>cmd_d.
       bind_io (log DEBUG (''Got HTTP 200 on command run '' @ c @ '' to API'')) (\<lambda>_.
       return_io cmd_d))
     else if hr then
       bind_io (log ERROR (''Cannot run '' @ c @ '' to API'')) (\<lambda>_.
       sys_exit 3)
     else
       bind_io (log ERROR (''Cannot run '' @ c @ '' to API, likely is not a correct command'')) (\<lambda>_.
       sys_exit 3))))) w2 = (Inr j, w')"
    by (subst (asm) bind_io_eq_Inr) blast
  from emits_traceD[OF check_connection_no_post cc] obtain e1 where
    e1: "trace w1 = trace w @ e1" "set e1 \<subseteq> {e. \<not> is_post e}" by blast
  from emits_traceD[OF check_user_rights_no_post cur] obtain e2 where
    e2: "trace w2 = trace w1 @ e2" "set e2 \<subseteq> {e. \<not> is_post e}" by blast
  from r2 obtain t where t: "token_id self = Some t"
    and tr: "trace w' = trace w2 @ [Log DEBUG (''Going to send command run '' @ c @ '' to API''),
              Post (base_url self @ c) [(''X-Auth-Token'', t)],
              Log DEBUG (''Got HTTP 200 on command run '' @ c @ '' to API'')]"
    by (auto simp: bind_io_def getattr_token_id_def raise_def return_io_def log_def requests_post_def
         json_loads_def sys_exit_def emit_def Let_def
         split: option.splits sum.splits if_splits)
  show ?thesis
    using t tr e1 e2 by (simp add: filter_no_post)
qed


lemma log_eq_Inr: "log l s w = (Inr x, w') \<longleftrightarrow> w' = w\<lparr>trace := trace w @ [Log l s]\<rparr>"
  by (auto simp: log_def emit_def)

lemma requests_post_Inr:
  "requests_post url hs w = (Inr r, w') \<longleftrightarrow>
     env_post w (n_post w) url hs = Inr r \<and> w' = w\<lparr>trace := trace w @ [Post url hs]\<rparr>"
  by (auto simp: requests_post_def emit_def split: sum.splits)

lemma json_loads_Inr: "json_loads b w = (Inr j, w') \<longleftrightarrow> b = Some j \<and> w' = w"
  by (auto simp: json_loads_def raise_def return_io_def split: option.splits)

lemma return_io_Inr: "return_io x w = (Inr y, w') \<longleftrightarrow> x = y \<and> w' = w"
  by (auto simp: return_io_def)

lemma sys_exit_Inr: "sys_exit n w = (Inr y, w') \<longleftrightarrow> False"
  by (simp add: sys_exit_def)

lemma raise_Inr: "raise e w = (Inr y, w') \<longleftrightarrow> False"
  by (simp add: raise_def)

lemma lift_Inr: "lift r w = (Inr x, w') \<longleftrightarrow> r = Inr x \<and> w' = w"
  by (cases r) (auto simp: lift_def raise_def return_io_def)

lemma getattr_token_Inr: "getattr_token_id self w = (Inr t, w') \<longleftrightarrow> token_id self = Some t \<and> w' = w"
  by (auto simp: getattr_token_id_def raise_def return_io_def split: option.splits)

lemmas Inr_simps = bind_io_eq_Inr log_eq_Inr requests_post_Inr json_loads_Inr return_io_Inr sys_exit_Inr
  raise_Inr lift_Inr getattr_token_Inr

lemma get_token_Inr:
  assumes "get_token self w = (Inr tok, w')"
  shows "\<exists>evs. trace w' = trace w @ evs \<and>
           filter is_post evs = [Post (base_url self @ ''auth'')
              [(''X-Auth-Username'', JStr (username self)), (''X-Auth-Password'', JStr (password self)),
               (''charset'', JStr ''utf-8'')]]"
  using assms unfolding get_token_def Let_def
  by (auto simp: Inr_simps filter_no_post split: if_splits
       dest!: emits_traceD[OF check_connection_no_post])

lemma as_str_Inr:
  "(case v of JStr r \<Rightarrow> return_io r | _ \<Rightarrow> raise TypeError) w = (Inr y, w') \<longleftrightarrow> v = JStr y \<and> w' = w"
  by (cases v) (auto simp: return_io_def raise_def)

lemma get_user_role_Inr:
  assumes "get_user_role self w = (Inr role, w')"
  shows "\<exists>t evs. token_id self = Some t \<and> trace w' = trace w @ evs \<and>
           filter is_post evs = [Post (base_url self @ ''lscurrentuser'') [(''X-Auth-Token'', t)]]"
  using assms unfolding get_user_role_def
  by (auto simp: Inr_simps as_str_Inr filter_no_post dest!: run_command_Inr)

lemma set_logger_up_no_post: "emits {e. \<not> is_post e} (set_logger_up self)"
  unfolding set_logger_up_def create_output_dir_def add_timestamp_def
  apply (intro emits_intros)
  apply (auto simp: emits_def os_path_isdir_def os_makedirs_def emit_def)
  done


lemma datetime_now_Inr: "datetime_now w = (Inr x, w') \<longleftrightarrow> x = env_now w (clock w) \<and> w' = w"
  by (auto simp: datetime_now_def)

lemma init_Inr:
  assumes "init ip user pw dir verb w = (Inr s, w')"
  shows "\<exists>tok role evs. token_id s = Some tok \<and> user_role s = Some role \<and> first_run s \<and>
           trace w' = trace w @ evs \<and>
           filter is_post evs =
             [Post (''https://'' @ ip @ '':7443/rest/auth'')
                [(''X-Auth-Username'', JStr user), (''X-Auth-Password'', JStr pw), (''charset'', JStr ''utf-8'')],
              Post (''https://'' @ ip @ '':7443/rest/lscurrentuser'') [(''X-Auth-Token'', tok)]]"
  using assms unfolding init_def Let_def
  by (auto simp: bind_io_eq_Inr datetime_now_Inr return_io_Inr filter_no_post
      dest!: emits_traceD[OF set_logger_up_no_post] get_token_Inr get_user_role_Inr)

lemma get_user_role_fails_only:
  "(\<And>e. Unhandled e \<in> F) \<Longrightarrow> Exit 6 \<in> F \<Longrightarrow> Exit 3 \<in> F \<Longrightarrow> fails_only F (get_user_role self)"
  unfolding get_user_role_def
  apply (intro fails_only_intros run_command_ls_fails_only)
  apply (simp_all add: startswith_def)
  apply (auto simp: fails_only_def raise_def return_io_def split: json.splits)
  done

lemma fails_onlyD: "fails_only F m \<Longrightarrow> fst (m w) = Inl e \<Longrightarrow> e \<in> F"
  by (auto simp: fails_only_def)

lemma get_user_role_not_4: "fst (get_user_role self w) \<noteq> Inl (Exit 4)"
  using fails_onlyD[OF get_user_role_fails_only[of "- {Exit 4}" self], of w "Exit 4"] by auto

lemma get_user_role_rejected:
  assumes "py_int (port self) = Inr p" and "token_id self = Some t"
    and "env_connect_ex w (n_connect w) = Inr 0" and "\<not> env_shutdown_raises w (n_connect w)"
    and "env_post w (n_post w) (base_url self @ ''lscurrentuser'') [(''X-Auth-Token'', t)] = Inr (Response c b)"
    and "c \<noteq> 200"
  shows "fst (get_user_role self w) = Inl (Exit 3)"
  using assms
  by (simp add: get_user_role_def run_command_def check_connection_eq check_user_rights_def io_defs Let_def
      startswith_def)

lemma open_sheet_self: "open_sheet self c w = (Inr (wb, i, s1), w') \<Longrightarrow> s1 = self\<lparr>first_run := False\<rparr>"
  unfolding open_sheet_def Let_def
  by (auto simp: Inr_simps split: if_splits)

lemma parse_command_self:
  assumes "parse_command_to_excel self c w = (Inr s', w')"
  shows "s' = self\<lparr>first_run := False\<rparr>"
  using assms unfolding parse_command_to_excel_eq
  by (auto simp: bind_io_eq_Inr return_io_Inr dest!: open_sheet_self)

lemma for_commands_self:
  "for_commands cmds self w = (Inr s', w') \<Longrightarrow> token_id s' = token_id self \<and> user_role s' = user_role self"
proof (induction cmds arbitrary: self w)
  case Nil
  then show ?case by (simp add: return_io_Inr)
next
  case (Cons c cmds)
  from Cons.prems obtain s1 w1 where p: "parse_command_to_excel self c w = (Inr s1, w1)"
    and r: "for_commands cmds s1 w1 = (Inr s', w')"
    by (auto simp: bind_io_eq_Inr)
  from parse_command_self[OF p] Cons.IH[OF r] show ?case by simp
qed

lemma generate_self:
  "generate_excel_report self w = (Inr s', w') \<Longrightarrow> token_id s' = token_id self \<and> user_role s' = user_role self"
  unfolding generate_excel_report_def
  by (auto simp: bind_io_eq_Inr return_io_Inr log_eq_Inr dest!: for_commands_self)

lemma fails_only_DataFrame: "(\<And>e. Unhandled e \<in> F) \<Longrightarrow> fails_only F (DataFrame_from_dict d)"
  by (auto simp: fails_only_def DataFrame_from_dict_def Let_def split: option.splits sum.splits)

lemma fails_only_avoid: "fails_only F (avoid_duplicate_name ns v)"
  by (auto simp: fails_only_def avoid_duplicate_name_def)

lemma fails_only_load: "(\<And>e. Unhandled e \<in> F) \<Longrightarrow> fails_only F (load_workbook p)"
  by (auto simp: fails_only_def load_workbook_def split: option.splits if_splits)

lemma fails_only_open_sheet: "(\<And>e. Unhandled e \<in> F) \<Longrightarrow> fails_only F (open_sheet self c)"
  unfolding open_sheet_def set_title_def create_sheet_def Let_def
  by (intro fails_only_intros fails_only_avoid fails_only_load) simp_all

lemma fails_only_import_data: "(\<And>e. Unhandled e \<in> F) \<Longrightarrow> fails_only F (import_data c d ws)"
  unfolding import_data_def
  by (intro fails_only_intros fails_only_DataFrame) simp_all

lemma fails_only_format_sheet: "(\<And>e. Unhandled e \<in> F) \<Longrightarrow> fails_only F (format_sheet self ws c)"
  unfolding format_sheet_def Let_def
  by (intro fails_only_intros) simp_all

lemma fails_only_save_excel: "Exit 2 \<in> F \<Longrightarrow> fails_only F (save_excel self wb c)"
  by (auto simp: fails_only_def save_excel_eq Let_def)

lemma fails_only_format_lssystem:
  "(\<And>e. Unhandled e \<in> F) \<Longrightarrow> Exit 6 \<in> F \<Longrightarrow> Exit 3 \<in> F \<Longrightarrow> fails_only F (format_lssystem_to_excel self)"
  unfolding format_lssystem_to_excel_def
  by (intro fails_only_intros run_command_ls_fails_only) (simp_all add: startswith_def)

lemma fails_only_parse:
  assumes "startswith c ''ls''" and "\<And>e. Unhandled e \<in> F" and "Exit 6 \<in> F" and "Exit 3 \<in> F" and "Exit 2 \<in> F"
  shows "fails_only F (parse_command_to_excel self c)"
  unfolding parse_command_to_excel_def Let_def
  by (intro fails_only_intros fails_only_open_sheet fails_only_format_lssystem run_command_ls_fails_only
      fails_only_import_data fails_only_format_sheet fails_only_save_excel assms)

lemma fails_only_for_commands:
  assumes "\<forall>c \<in> set cmds. startswith c ''ls''" and "\<And>e. Unhandled e \<in> F" and "Exit 6 \<in> F" and "Exit 3 \<in> F" and "Exit 2 \<in> F"
  shows "fails_only F (for_commands cmds self)"
  using assms(1)
proof (induction cmds arbitrary: self)
  case Nil
  show ?case by (simp add: fails_only_return)
next
  case (Cons c cmds)
  then show ?case
    by (auto intro!: fails_only_bind fails_only_parse assms(2-5))
qed

lemma fails_only_generate:
  assumes "\<And>e. Unhandled e \<in> F" and "Exit 6 \<in> F" and "Exit 3 \<in> F" and "Exit 2 \<in> F"
  shows "fails_only F (generate_excel_report self)"
  unfolding generate_excel_report_def
  by (intro fails_only_intros fails_only_for_commands report_commands_ls assms)

subsection \<open>Claim C9: the report never fails the authorization check\<close>

text \<open>
  C9. Every command of the report list starts with \<^verbatim>\<open>ls\<close>, so the authorization check
  returns \<^verbatim>\<open>True\<close> for it whatever the client object (any role, or none) and the world; and
  however the world answers, generating the report never ends with exit code 5.
\<close>

theorem report_never_unauthorized:
  "(\<forall>c \<in> set report_commands. startswith c ''ls'' \<and> fst (check_user_rights self c w) = Inr True) \<and>
   fst (generate_excel_report self w) \<noteq> Inl (Exit 5)"
proof -
  have "fst (check_user_rights self c w) = Inr True" if "startswith c ''ls''" for c
    using that by (simp add: check_user_rights_def bind_io_def log_def return_io_def)
  moreover have "fst (generate_excel_report self w) \<noteq> Inl (Exit 5)"
    using fails_onlyD[OF fails_only_generate[of "- {Exit 5}" self], of w "Exit 5"] by auto
  ultimately show ?thesis using report_commands_ls by blast
qed

theorem report_never_unauthorized_witness:
  "list_all (\<lambda>c. startswith c ''ls'') report_commands \<and>
   fst (check_user_rights (client None) ''lseventlog'' reachable_world) = Inr True \<and>
   fst (generate_excel_report (client None) reachable_world) \<noteq> Inl (Exit 5)"
  using report_never_unauthorized[of "client None" reachable_world]
  by (simp add: report_commands_def list_all_iff)

subsection \<open>Claim C1: the sheets on disk follow the commands\<close>

text \<open>
  C1. Start a run with \<^verbatim>\<open>first_run\<close> set and no report file on disk. Whatever the world
  does: once the first \<open>N\<close> commands of the list have been processed, the file holds exactly
  \<open>N\<close> sheets, titled as these commands and in their order; if generating the report fails
  (with any exit code or exception), then some \<open>N\<close> commands were processed, the next one
  failed, and the file still holds exactly the sheets of those \<open>N\<close> commands (none, and no
  file, when \<open>N\<close> is 0); after a complete run the file holds the 18 sheets. The commands are
  pairwise distinct, so no two sheets share a title. The file system is taken to write a
  workbook whole or not at all: a save that fails leaves the file of the step before.
\<close>

theorem report_sheets:
  assumes "first_run self" and "files w (master_file self) = None"
  shows "(\<forall>N s' w'. for_commands (take N report_commands) self w = (Inr s', w') \<longrightarrow>
            sheet_names self w' = take N report_commands) \<and>
         (\<forall>e w'. generate_excel_report self w = (Inl e, w') \<longrightarrow>
            (\<exists>N s'' w''. N < length report_commands \<and>
               for_commands (take N report_commands) self w = (Inr s'', w'') \<and>
               fst (parse_command_to_excel s'' (report_commands ! N) w'') = Inl e \<and>
               sheet_names self w' = take N report_commands)) \<and>
         (\<forall>s' w'. generate_excel_report self w = (Inr s', w') \<longrightarrow> sheet_names self w' = report_commands) \<and>
         distinct report_commands"
proof (intro conjI allI impI)
  have p0: "progress self w []" using assms by (simp add: progress_def)
  {
    fix N s' w'
    assume a: "for_commands (take N report_commands) self w = (Inr s', w')"
    from for_commands_progress[OF p0 fresh_titles_take[OF fresh_report_commands] a]
    have "progress s' w' (take N report_commands)" "master_file s' = master_file self" by simp_all
    then show "sheet_names self w' = take N report_commands"
      using progress_sheet_names[of s' w'] by (simp add: sheet_names_def)
  }
  {
    fix e w'
    assume a: "generate_excel_report self w = (Inl e, w')"
    then have f: "for_commands report_commands self w = (Inl e, w')"
      by (auto simp: generate_excel_report_def bind_io_def log_def return_io_def split: prod.splits sum.splits)
    from for_commands_progress[OF p0 fresh_report_commands f]
    obtain k self'' w'' where k: "k < length report_commands"
       "for_commands (take k report_commands) self w = (Inr self'', w'')"
       "fst (parse_command_to_excel self'' (report_commands ! k) w'') = Inl e"
       "files w' = files w''" "progress self'' w'' (take k report_commands)"
       "master_file self'' = master_file self" by auto
    from k(4,5,6) have "sheet_names self w' = take k report_commands"
      using progress_sheet_names[of self'' w''] by (simp add: sheet_names_def)
    with k show "\<exists>N s'' w''. N < length report_commands \<and>
               for_commands (take N report_commands) self w = (Inr s'', w'') \<and>
               fst (parse_command_to_excel s'' (report_commands ! N) w'') = Inl e \<and>
               sheet_names self w' = take N report_commands" by blast
  }
  {
    fix s' w'
    assume a: "generate_excel_report self w = (Inr s', w')"
    then obtain w1 where f: "for_commands report_commands self w = (Inr s', w1)" and w': "files w' = files w1"
      by (auto simp: generate_excel_report_def bind_io_eq_Inr return_io_Inr log_eq_Inr)
    from for_commands_progress[OF p0 fresh_report_commands f]
    have "progress s' w1 report_commands" "master_file s' = master_file self" by simp_all
    then show "sheet_names self w' = report_commands"
      using progress_sheet_names[of s' w1] w' by (simp add: sheet_names_def)
  }
  show "distinct report_commands" by (rule report_commands_distinct)
qed


subsection \<open>Claim C3: discovering the role\<close>

text \<open>
  C3, as amended. The constructor acquires the token and then asks for the role with the
  read command \<^verbatim>\<open>lscurrentuser\<close>. Looking up the role never ends with exit code 4: when
  the array answers that command with a status other than 200, the process ends with exit
  code 3, as for any failed command. When the constructor returns, token and role are set,
  and the requests it sent are the one for the token and then the one for the role, made
  with that token. Processing commands and generating the report leave token and role as
  they are. The claim's exit code 4 for a failed role lookup is not what the code does
  (\<open>rejected_role_lookup_exits_3\<close>).
\<close>

theorem role_discovery:
  "fst (get_user_role self w) \<noteq> Inl (Exit 4) \<and>
   (py_int (port self) = Inr p \<and> token_id self = Some t \<and> env_connect_ex w (n_connect w) = Inr 0 \<and>
    \<not> env_shutdown_raises w (n_connect w) \<and>
    env_post w (n_post w) (base_url self @ ''lscurrentuser'') [(''X-Auth-Token'', t)] = Inr (Response c b) \<and>
    c \<noteq> 200 \<longrightarrow> fst (get_user_role self w) = Inl (Exit 3)) \<and>
   (fst (init ip user pw dir verb w) = Inr s \<longrightarrow>
      (\<exists>tok role. token_id s = Some tok \<and> user_role s = Some role \<and>
         filter is_post (emitted w (snd (init ip user pw dir verb w))) =
           [Post (''https://'' @ ip @ '':7443/rest/auth'')
              [(''X-Auth-Username'', JStr user), (''X-Auth-Password'', JStr pw), (''charset'', JStr ''utf-8'')],
            Post (''https://'' @ ip @ '':7443/rest/lscurrentuser'') [(''X-Auth-Token'', tok)]])) \<and>
   (fst (for_commands cmds s w) = Inr s' \<longrightarrow> token_id s' = token_id s \<and> user_role s' = user_role s) \<and>
   (fst (generate_excel_report s w) = Inr s' \<longrightarrow> token_id s' = token_id s \<and> user_role s' = user_role s)"
proof (intro conjI impI)
  show "fst (get_user_role self w) \<noteq> Inl (Exit 4)" by (rule get_user_role_not_4)
next
  assume "py_int (port self) = Inr p \<and> token_id self = Some t \<and> env_connect_ex w (n_connect w) = Inr 0 \<and>
    \<not> env_shutdown_raises w (n_connect w) \<and>
    env_post w (n_post w) (base_url self @ ''lscurrentuser'') [(''X-Auth-Token'', t)] = Inr (Response c b) \<and>
    c \<noteq> 200"
  then show "fst (get_user_role self w) = Inl (Exit 3)" using get_user_role_rejected by blast
next
  assume "fst (init ip user pw dir verb w) = Inr s"
  then obtain w' where i: "init ip user pw dir verb w = (Inr s, w')" by (cases "init ip user pw dir verb w") auto
  from init_Inr[OF i] i show "\<exists>tok role. token_id s = Some tok \<and> user_role s = Some role \<and>
         filter is_post (emitted w (snd (init ip user pw dir verb w))) =
           [Post (''https://'' @ ip @ '':7443/rest/auth'')
              [(''X-Auth-Username'', JStr user), (''X-Auth-Password'', JStr pw), (''charset'', JStr ''utf-8'')],
            Post (''https://'' @ ip @ '':7443/rest/lscurrentuser'') [(''X-Auth-Token'', tok)]]"
    by (auto simp: emitted_def)
next
  assume "fst (for_commands cmds s w) = Inr s'"
  then obtain w' where "for_commands cmds s w = (Inr s', w')" by (cases "for_commands cmds s w") auto
  then show "token_id s' = token_id s" "user_role s' = user_role s" using for_commands_self by blast+
next
  assume "fst (generate_excel_report s w) = Inr s'"
  then obtain w' where "generate_excel_report s w = (Inr s', w')" by (cases "generate_excel_report s w") auto
  then show "token_id s' = token_id s" "user_role s' = user_role s" using generate_self by blast+
qed

section \<open>The sheet of a command\<close>

subsection \<open>Appending the rows of a table\<close>










subsection \<open>Claim C6: the header and the rows of a sheet\<close>




end
